theory Spec2Isabelle
  imports Complex_Main
begin

section \<open>JavaScript values\<close>

text \<open>
  A JavaScript number is a double: \<open>Num x\<close> is the finite double of value \<open>x\<close>, beside the
  two infinities and \<open>NaN\<close>. The two zeros are one value, \<open>Num 0\<close>: the script divides
  only by values it has tested to be non-zero, and nothing else it does tells the zeros
  apart. A value that may be \<open>null\<close> (or \<open>undefined\<close>) is an \<open>option\<close>, with \<open>None\<close> for
  \<open>null\<close>.
\<close>

datatype jsnum = Num rat | PosInf | NegInf | NaN

text \<open>Truthiness of a possibly-null number: \<open>null\<close>, \<open>0\<close> and \<open>NaN\<close> are falsy.\<close>

fun truthy :: "jsnum option \<Rightarrow> bool" where
  "truthy None = False"
| "truthy (Some NaN) = False"
| "truthy (Some (Num x)) = (x \<noteq> 0)"
| "truthy (Some PosInf) = True"
| "truthy (Some NegInf) = True"

subsection \<open>Rounding to a double\<close>

text \<open>
  \<open>fl x\<close> is the double nearest to the real number \<open>x\<close>, a tie going to the even
  significand (IEEE 754 binary64, round to nearest). \<open>binaryExponent x\<close> is the exponent
  \<open>e\<close> with \<open>2 ^ e \<le> x < 2 ^ (e + 1)\<close>, found by halving or doubling \<open>x\<close>; it stops at 1024
  and at -1022, the exponent of the subnormal numbers. The doubles of exponent \<open>e\<close> are
  the multiples of \<open>2 ^ (e - 52)\<close>, and a rounded value of \<open>2 ^ 1024\<close> or more is an
  infinity.
\<close>

definition pow2 :: "int \<Rightarrow> rat" where
  "pow2 e = (if e < 0 then 1 / 2 ^ nat (- e) else 2 ^ nat e)"

fun halvings :: "nat \<Rightarrow> rat \<Rightarrow> nat" where
  "halvings 0 x = 0"
| "halvings (Suc n) x = (if x < 2 then 0 else Suc (halvings n (x / 2)))"

fun doublings :: "nat \<Rightarrow> rat \<Rightarrow> nat" where
  "doublings 0 x = 0"
| "doublings (Suc n) x = (if 1 \<le> x then 0 else Suc (doublings n (x * 2)))"

definition binaryExponent :: "rat \<Rightarrow> int" where
  "binaryExponent x = (if 1 \<le> x then int (halvings 1024 x) else - int (doublings 1022 x))"

definition roundHalfEven :: "rat \<Rightarrow> int" where
  "roundHalfEven x =
     (let f = \<lfloor>x\<rfloor>; r = x - of_int f
      in if r < 1 / 2 then f else if 1 / 2 < r then f + 1 else if even f then f else f + 1)"

definition fl :: "rat \<Rightarrow> jsnum" where
  "fl x =
     (if x = 0 then Num 0
      else
        (let ulp = pow2 (binaryExponent \<bar>x\<bar> - 52);
             r = of_int (roundHalfEven (x / ulp)) * ulp
         in if 1024 \<le> binaryExponent \<bar>r\<bar> then (if 0 < x then PosInf else NegInf)
            else Num r))"

subsection \<open>Arithmetic and comparison\<close>

text \<open>
  Each operation gives the exact result rounded to a double. A quotient by zero depends
  on the sign of the zero, which the model does not keep; it is given as for the positive
  zero.
\<close>

definition infinityOf :: "bool \<Rightarrow> jsnum" where
  "infinityOf pos = (if pos then PosInf else NegInf)"

fun js_div :: "jsnum \<Rightarrow> jsnum \<Rightarrow> jsnum" where
  "js_div (Num a) (Num b) =
     (if b \<noteq> 0 then fl (a / b) else if a = 0 then NaN else infinityOf (0 < a))"
| "js_div (Num a) PosInf = Num 0"
| "js_div (Num a) NegInf = Num 0"
| "js_div PosInf (Num b) = infinityOf (0 \<le> b)"
| "js_div NegInf (Num b) = infinityOf (b < 0)"
| "js_div _ _ = NaN"

fun js_mul :: "jsnum \<Rightarrow> jsnum \<Rightarrow> jsnum" where
  "js_mul (Num a) (Num b) = fl (a * b)"
| "js_mul (Num a) PosInf = (if a = 0 then NaN else infinityOf (0 < a))"
| "js_mul (Num a) NegInf = (if a = 0 then NaN else infinityOf (a < 0))"
| "js_mul PosInf (Num b) = (if b = 0 then NaN else infinityOf (0 < b))"
| "js_mul NegInf (Num b) = (if b = 0 then NaN else infinityOf (b < 0))"
| "js_mul PosInf PosInf = PosInf"
| "js_mul NegInf NegInf = PosInf"
| "js_mul PosInf NegInf = NegInf"
| "js_mul NegInf PosInf = NegInf"
| "js_mul _ _ = NaN"

fun js_sub :: "jsnum \<Rightarrow> jsnum \<Rightarrow> jsnum" where
  "js_sub (Num a) (Num b) = fl (a - b)"
| "js_sub (Num a) PosInf = NegInf"
| "js_sub (Num a) NegInf = PosInf"
| "js_sub PosInf (Num b) = PosInf"
| "js_sub PosInf NegInf = PosInf"
| "js_sub NegInf (Num b) = NegInf"
| "js_sub NegInf PosInf = NegInf"
| "js_sub _ _ = NaN"

text \<open>\<open>a < b\<close> and \<open>a <= b\<close>; both are false when an operand is \<open>NaN\<close>.\<close>

fun js_less :: "jsnum \<Rightarrow> jsnum \<Rightarrow> bool" where
  "js_less (Num a) (Num b) = (a < b)"
| "js_less (Num a) PosInf = True"
| "js_less NegInf (Num b) = True"
| "js_less NegInf PosInf = True"
| "js_less _ _ = False"

definition js_le :: "jsnum \<Rightarrow> jsnum \<Rightarrow> bool" where
  "js_le a b = (js_less a b \<or> (a = b \<and> a \<noteq> NaN))"

text \<open>\<open>Math.round\<close>: the nearest integer, a tie going up.\<close>

fun Math_round :: "jsnum \<Rightarrow> jsnum" where
  "Math_round (Num x) = Num (of_int \<lfloor>x + 1 / 2\<rfloor>)"
| "Math_round v = v"

text \<open>\<open>Math.max\<close> and \<open>Math.min\<close> of two numbers; \<open>NaN\<close> is contagious.\<close>

definition Math_max :: "jsnum \<Rightarrow> jsnum \<Rightarrow> jsnum" where
  "Math_max a b = (if a = NaN \<or> b = NaN then NaN else if js_less a b then b else a)"

definition Math_min :: "jsnum \<Rightarrow> jsnum \<Rightarrow> jsnum" where
  "Math_min a b = (if a = NaN \<or> b = NaN then NaN else if js_less b a then b else a)"

section \<open>Strings\<close>

text \<open>
  Strings are lists of 8-bit characters, so the model covers ASCII text. Whitespace is
  the ASCII whitespace (tab, line feed, vertical tab, form feed, carriage return, space).
\<close>

definition isDigit :: "char \<Rightarrow> bool" where
  "isDigit c = (c \<in> set ''0123456789'')"

definition isSpace :: "char \<Rightarrow> bool" where
  "isSpace c = (c \<in> set [CHR 0x09, CHR 0x0A, CHR 0x0B, CHR 0x0C, CHR 0x0D, CHR '' ''])"

definition digitVal :: "char \<Rightarrow> nat" where
  "digitVal c = length (takeWhile (\<lambda>d. d \<noteq> c) ''0123456789'')"

definition digitsVal :: "string \<Rightarrow> nat" where
  "digitsVal ds = foldl (\<lambda>a c. 10 * a + digitVal c) 0 ds"

definition lowerChar :: "char \<Rightarrow> char" where
  "lowerChar c =
     (case map_of (zip ''ABCDEFGHIJKLMNOPQRSTUVWXYZ'' ''abcdefghijklmnopqrstuvwxyz'') c of
        Some l \<Rightarrow> l
      | None \<Rightarrow> c)"

definition toLowerCase :: "string \<Rightarrow> string" where
  "toLowerCase s = map lowerChar s"

definition trim :: "string \<Rightarrow> string" where
  "trim s = rev (dropWhile isSpace (rev (dropWhile isSpace s)))"

fun startsWith :: "string \<Rightarrow> string \<Rightarrow> bool" where
  "startsWith s [] = True"
| "startsWith [] (p # ps) = False"
| "startsWith (c # cs) (p # ps) = (c = p \<and> startsWith cs ps)"

text \<open>\<open>s.includes(sub)\<close>: \<open>sub\<close> occurs in \<open>s\<close> as a contiguous substring.\<close>

fun includes_str :: "string \<Rightarrow> string \<Rightarrow> bool" where
  "includes_str [] sub = (sub = [])"
| "includes_str (c # cs) sub = (startsWith (c # cs) sub \<or> includes_str cs sub)"

text \<open>\<open>s.replace(/,/g, '')\<close> and \<open>s.replace(/\s/g, '')\<close>.\<close>

definition removeCommas :: "string \<Rightarrow> string" where
  "removeCommas s = filter (\<lambda>c. c \<noteq> CHR '','') s"

definition removeSpaces :: "string \<Rightarrow> string" where
  "removeSpaces s = filter (\<lambda>c. \<not> isSpace c) s"

text \<open>
  \<open>s.match(/[\d.]+/)\<close>: the leftmost maximal run of digits and dots, \<open>None\<close> when there
  is none.
\<close>

definition isNumChar :: "char \<Rightarrow> bool" where
  "isNumChar c = (isDigit c \<or> c = CHR ''.'')"

definition matchNumToken :: "string \<Rightarrow> string option" where
  "matchNumToken s =
     (let tok = takeWhile isNumChar (dropWhile (\<lambda>c. \<not> isNumChar c) s)
      in if tok = [] then None else Some tok)"

text \<open>
  \<open>s.match(/[\d,]+/g)\<close>: every maximal run of digits and commas, from left to right
  (the empty list stands for the \<open>null\<close> of no match). The scan keeps the run read so
  far and closes it at the first character outside the class.
\<close>

definition isGroupChar :: "char \<Rightarrow> bool" where
  "isGroupChar c = (isDigit c \<or> c = CHR '','')"

fun groupsFrom :: "string \<Rightarrow> string \<Rightarrow> string list" where
  "groupsFrom run [] = (if run = [] then [] else [run])"
| "groupsFrom run (c # cs) =
     (if isGroupChar c then groupsFrom (run @ [c]) cs
      else if run = [] then groupsFrom [] cs
      else run # groupsFrom [] cs)"

definition matchAllGroups :: "string \<Rightarrow> string list" where
  "matchAllGroups s = groupsFrom [] s"

text \<open>
  \<open>parseInt(s, 10)\<close>: leading whitespace, an optional sign, then the longest run of
  digits; \<open>NaN\<close> when there is no digit. The value is rounded to a double.
\<close>

definition parseInt :: "string \<Rightarrow> jsnum" where
  "parseInt s =
     (let s1 = dropWhile isSpace s;
          neg = (s1 \<noteq> [] \<and> hd s1 = CHR ''-'');
          s2 = (if s1 \<noteq> [] \<and> (hd s1 = CHR ''-'' \<or> hd s1 = CHR ''+'') then tl s1 else s1);
          ds = takeWhile isDigit s2
      in if ds = [] then NaN
         else fl (if neg then - of_nat (digitsVal ds) else of_nat (digitsVal ds)))"

text \<open>
  \<open>parseFloat(s)\<close>: leading whitespace, an optional sign, then \<open>Infinity\<close> or the
  longest prefix that is a decimal literal (digits, an optional fraction, an optional
  exponent); \<open>NaN\<close> when there is neither. The value of the literal is rounded to a
  double.
\<close>

definition parseExponent :: "string \<Rightarrow> int" where
  "parseExponent r =
     (if r \<noteq> [] \<and> (hd r = CHR ''e'' \<or> hd r = CHR ''E'') then
        (let r1 = tl r;
             neg = (r1 \<noteq> [] \<and> hd r1 = CHR ''-'');
             r2 = (if r1 \<noteq> [] \<and> (hd r1 = CHR ''-'' \<or> hd r1 = CHR ''+'') then tl r1 else r1);
             ds = takeWhile isDigit r2
         in if ds = [] then 0 else if neg then - int (digitsVal ds) else int (digitsVal ds))
      else 0)"

definition pow10 :: "int \<Rightarrow> rat" where
  "pow10 e = (if e < 0 then 1 / 10 ^ nat (- e) else 10 ^ nat e)"

definition parseFloat :: "string \<Rightarrow> jsnum" where
  "parseFloat s =
     (let s1 = dropWhile isSpace s;
          neg = (s1 \<noteq> [] \<and> hd s1 = CHR ''-'');
          s2 = (if s1 \<noteq> [] \<and> (hd s1 = CHR ''-'' \<or> hd s1 = CHR ''+'') then tl s1 else s1);
          ip = takeWhile isDigit s2;
          r1 = dropWhile isDigit s2;
          hasDot = (r1 \<noteq> [] \<and> hd r1 = CHR ''.'');
          fp = (if hasDot then takeWhile isDigit (tl r1) else []);
          r2 = (if hasDot then dropWhile isDigit (tl r1) else r1);
          m = of_nat (digitsVal ip) + of_nat (digitsVal fp) / 10 ^ length fp;
          v = m * pow10 (parseExponent r2)
      in if startsWith s2 ''Infinity'' then infinityOf (\<not> neg)
         else if ip = [] \<and> fp = [] then NaN
         else fl (if neg then - v else v))"

text \<open>
  \<open>text.match(/(\d+)\s*(?:of|\/)\s*(\d+)/)\<close>: at the leftmost position where it matches,
  a run of digits, optional whitespace, \<open>of\<close> or a slash, optional whitespace and a second
  run of digits. The result is the second group.
\<close>

definition ofMatchAt :: "string \<Rightarrow> string option" where
  "ofMatchAt s =
     (if takeWhile isDigit s = [] then None
      else
        (let r1 = dropWhile isSpace (dropWhile isDigit s);
             r2 = (if startsWith r1 ''of'' then Some (drop 2 r1)
                   else if startsWith r1 ''/'' then Some (drop 1 r1)
                   else None)
         in case r2 of
              None \<Rightarrow> None
            | Some r3 \<Rightarrow>
                (let g2 = takeWhile isDigit (dropWhile isSpace r3)
                 in if g2 = [] then None else Some g2)))"

fun ofMatch :: "string \<Rightarrow> string option" where
  "ofMatch [] = None"
| "ofMatch (c # cs) =
     (case ofMatchAt (c # cs) of Some g \<Rightarrow> Some g | None \<Rightarrow> ofMatch cs)"

section \<open>The page as the content script reads it\<close>

text \<open>
  An element carries what the script reads from it: its tag name (lower case), its
  attributes, its \<open>textContent\<close> and its ancestors, the parent first.
\<close>

datatype element =
  Element (tagName: string) (attributes: "(string \<times> string) list") (textContent: string)
    (ancestors: "element list")

definition getAttribute :: "element \<Rightarrow> string \<Rightarrow> string option" where
  "getAttribute el name = map_of (attributes el) name"

definition parentElement :: "element \<Rightarrow> element option" where
  "parentElement el = (case ancestors el of [] \<Rightarrow> None | p # _ \<Rightarrow> Some p)"

text \<open>
  \<open>el.closest('div, section, ...')\<close> for a selector that is a list of tag names: the
  element itself or its nearest ancestor with one of the tags.
\<close>

definition closest :: "string list \<Rightarrow> element \<Rightarrow> element option" where
  "closest tags el = find (\<lambda>e. tagName e \<in> set tags) (el # ancestors el)"

text \<open>
  What the browser answers during one synchronous run of the script:
  \<open>location_href\<close> is \<open>window.location.href\<close>; \<open>querySelectorAll sel\<close> is the list
  \<open>document.querySelectorAll(sel)\<close> in document order, or \<open>None\<close> when the browser
  rejects the selector with an exception; \<open>body\<close> is the text nodes below
  \<open>document.body\<close> in document order, each with its \<open>textContent\<close> and its parent
  element, or \<open>None\<close> when \<open>document.body\<close> is \<open>null\<close>; \<open>now_iso\<close> is
  \<open>new Date().toISOString()\<close>.
\<close>

record window =
  location_href :: string
  querySelectorAll :: "string \<Rightarrow> element list option"
  body :: "(string \<times> element) list option"
  now_iso :: string

subsection \<open>Selector utilities\<close>

fun queryFirst :: "window \<Rightarrow> string list \<Rightarrow> element option" where
  "queryFirst w [] = None"
| "queryFirst w (sel # sels) =
     (case querySelectorAll w sel of
        Some (el # _) \<Rightarrow> Some el
      | _ \<Rightarrow> queryFirst w sels)"

fun queryAllFirst :: "window \<Rightarrow> string list \<Rightarrow> element list" where
  "queryAllFirst w [] = []"
| "queryAllFirst w (sel # sels) =
     (case querySelectorAll w sel of
        Some (el # els) \<Rightarrow> el # els
      | _ \<Rightarrow> queryAllFirst w sels)"

text \<open>
  \<open>findByText(null, text, exact)\<close>: every call in the script passes \<open>null\<close> for the
  container selector, so the container is \<open>document.body\<close>.
\<close>

definition textMatches :: "bool \<Rightarrow> string \<Rightarrow> string \<Rightarrow> bool" where
  "textMatches exact text content =
     (if exact then trim content = text
      else includes_str (toLowerCase content) (toLowerCase text))"

definition findByText :: "window \<Rightarrow> string \<Rightarrow> bool \<Rightarrow> element option" where
  "findByText w text exact =
     (case body w of
        None \<Rightarrow> None
      | Some nodes \<Rightarrow> map_option snd (find (\<lambda>n. textMatches exact text (fst n)) nodes))"

definition orElse :: "'a option \<Rightarrow> 'a option \<Rightarrow> 'a option" where
  "orElse a b = (case a of Some x \<Rightarrow> Some x | None \<Rightarrow> b)"

definition findValueNearLabel :: "window \<Rightarrow> string \<Rightarrow> jsnum option" where
  "findValueNearLabel w labelText =
     (case findByText w labelText False of
        None \<Rightarrow> None
      | Some label \<Rightarrow>
          (case orElse (closest [''div'', ''section'', ''li'', ''tr'', ''td''] label)
                  (parentElement label) of
             None \<Rightarrow> None
           | Some parent \<Rightarrow>
               (case map (\<lambda>n. parseInt (removeCommas n))
                       (matchAllGroups (removeCommas (textContent parent))) of
                  [] \<Rightarrow> None
                | n # ns \<Rightarrow> Some (foldl Math_max n ns))))"

definition extractNumber :: "string option \<Rightarrow> jsnum option" where
  "extractNumber text =
     (case text of
        None \<Rightarrow> None
      | Some t \<Rightarrow>
          if t = [] then None
          else map_option parseFloat (matchNumToken (removeSpaces (removeCommas t))))"

definition getText :: "element option \<Rightarrow> string option" where
  "getText el = map_option (\<lambda>e. trim (textContent e)) el"

section \<open>Extraction for the Make.com dashboard\<close>

definition extractOperationsUsed :: "window \<Rightarrow> jsnum option" where
  \<open>extractOperationsUsed w =
     (case queryFirst w
             [''[data-testid="operations-used"]'',
              ''[data-testid="ops-used"]'',
              ''[data-testid="operations-count"]''] of
        Some el \<Rightarrow> extractNumber (getText (Some el))
      | None \<Rightarrow>
     (case queryFirst w
             [''[aria-label*="operation" i][aria-label*="used" i]'',
              ''[aria-label*="operations used" i]''] of
        Some el \<Rightarrow> extractNumber (getText (Some el))
      | None \<Rightarrow>
     (case findValueNearLabel w ''operations'' of
        Some val \<Rightarrow> Some val
      | None \<Rightarrow>
     (case queryFirst w [''[role="progressbar"][aria-label*="operation" i]''] of
        Some el \<Rightarrow>
          (case getAttribute el ''aria-valuenow'' of
             Some ariaVal \<Rightarrow> if ariaVal \<noteq> [] then Some (parseFloat ariaVal) else None
           | None \<Rightarrow> None)
      | None \<Rightarrow> None))))\<close>

definition extractOperationsLimit :: "window \<Rightarrow> jsnum option" where
  \<open>extractOperationsLimit w =
     (case queryFirst w
             [''[data-testid="operations-limit"]'',
              ''[data-testid="ops-limit"]'',
              ''[data-testid="operations-quota"]''] of
        Some el \<Rightarrow> extractNumber (getText (Some el))
      | None \<Rightarrow>
     (case queryFirst w
             [''[aria-label*="operation" i][aria-label*="limit" i]'',
              ''[aria-label*="operations limit" i]''] of
        Some el \<Rightarrow> extractNumber (getText (Some el))
      | None \<Rightarrow>
     (case (case findByText w ''operations'' False of
              None \<Rightarrow> None
            | Some opsArea \<Rightarrow>
                (case orElse (closest [''div'', ''section''] opsArea) (parentElement opsArea) of
                   None \<Rightarrow> None
                 | Some parent \<Rightarrow> ofMatch (removeCommas (textContent parent)))) of
        Some g2 \<Rightarrow> Some (parseInt g2)
      | None \<Rightarrow>
     (case findValueNearLabel w ''operations limit'' of
        Some val \<Rightarrow> Some val
      | None \<Rightarrow>
     (case queryFirst w [''[role="progressbar"][aria-label*="operation" i]''] of
        Some bar \<Rightarrow>
          (case getAttribute bar ''aria-valuemax'' of
             Some mx \<Rightarrow> if mx \<noteq> [] then Some (parseFloat mx) else None
           | None \<Rightarrow> None)
      | None \<Rightarrow> None)))))\<close>

definition extractScenarioList :: "window \<Rightarrow> element list" where
  \<open>extractScenarioList w =
     (let items = queryAllFirst w
             [''[data-testid="scenario-row"]'',
              ''[data-testid="scenario-item"]'',
              ''[data-testid="scenario-card"]'',
              ''[data-testid*="scenario-list"] > *'']
      in if items \<noteq> [] then items
      else
     (let items = queryAllFirst w
             [''table[aria-label*="scenario" i] tbody tr'',
              ''[role="list"][aria-label*="scenario" i] [role="listitem"]'',
              ''[role="listitem"][aria-label*="scenario" i]'']
      in if items \<noteq> [] then items
      else
     (let items = queryAllFirst w
             [''[class*="ScenarioRow"]'',
              ''[class*="scenario-row"]'',
              ''[class*="scenarioRow"]'',
              ''[class*="ScenarioCard"]'',
              ''main table tbody tr'',
              ''main [role="list"] > div'']
      in if items \<noteq> [] then items else [])))\<close>

subsection \<open>Counting scenarios by status\<close>

definition statusMap :: "(string \<times> string list) list" where
  "statusMap =
     [(''active'', [''active'', ''on'', ''running'', ''enabled'', ''scheduling'']),
      (''error'', [''error'', ''failed'', ''broken'', ''warning'']),
      (''inactive'', [''inactive'', ''off'', ''disabled'', ''stopped'', ''paused''])]"

definition statusTerms :: "string \<Rightarrow> string list" where
  "statusTerms status = (case map_of statusMap status of Some ts \<Rightarrow> ts | None \<Rightarrow> [status])"

text \<open>The three structured selectors of strategy 1, built from one term.\<close>

definition statusSelectors :: "string \<Rightarrow> string list" where
  \<open>statusSelectors term =
     [''[data-testid="scenario-status-'' @ term @ ''"]'',
      ''[data-status="'' @ term @ ''"]'',
      ''[aria-label*="'' @ term @ ''" i][role="status"]'']\<close>

text \<open>
  Strategy 1 is a loop over the terms that returns from the function at the first term
  with a non-empty match; \<open>None\<close> means the loop ran to its end.
\<close>

fun countStructured :: "window \<Rightarrow> string list \<Rightarrow> nat option" where
  "countStructured w [] = None"
| "countStructured w (term # terms) =
     (let els = queryAllFirst w (statusSelectors term)
      in if length els > 0 then Some (length els) else countStructured w terms)"

definition statusText :: "element \<Rightarrow> string" where
  "statusText el =
     trim (toLowerCase (textContent el)) @ '' '' @
     toLowerCase (case getAttribute el ''aria-label'' of Some l \<Rightarrow> l | None \<Rightarrow> [])"

definition statusElements :: "window \<Rightarrow> element list" where
  \<open>statusElements w =
     queryAllFirst w
       [''[data-testid*="status"]'',
        ''[class*="status"]'',
        ''[class*="Status"]'',
        ''[role="status"]'',
        ''.imt-toggle'',
        ''[class*="toggle"]'']\<close>

definition countByText :: "window \<Rightarrow> string list \<Rightarrow> nat" where
  "countByText w terms =
     length (filter (\<lambda>el. list_ex (\<lambda>t. includes_str (statusText el) t) terms)
               (statusElements w))"

text \<open>Strategy 3, the state of the toggles, for the two binary states only.\<close>

definition countToggles :: "window \<Rightarrow> string \<Rightarrow> nat" where
  \<open>countToggles w status =
     (if status = ''active'' then
        length (queryAllFirst w
          [''[role="switch"][aria-checked="true"]'',
           ''input[type="checkbox"]:checked''])
      else if status = ''inactive'' then
        length (queryAllFirst w
          [''[role="switch"][aria-checked="false"]'',
           ''input[type="checkbox"]:not(:checked)''])
      else 0)\<close>

definition countScenariosByStatus :: "window \<Rightarrow> string \<Rightarrow> nat" where
  "countScenariosByStatus w status =
     (let terms = statusTerms status in
      case countStructured w terms of
        Some n \<Rightarrow> n
      | None \<Rightarrow>
          (let count = countByText w terms in
           if count > 0 then count else countToggles w status))"

subsection \<open>Plan and team\<close>

definition extractPlanName :: "window \<Rightarrow> string option" where
  \<open>extractPlanName w =
     (case queryFirst w
             [''[data-testid="plan-name"]'',
              ''[data-testid="current-plan"]'',
              ''[data-testid="plan-badge"]'',
              ''[aria-label*="plan" i]''] of
        Some el \<Rightarrow> getText (Some el)
      | None \<Rightarrow>
          (case findByText w ''plan'' False of
             None \<Rightarrow> None
           | Some el \<Rightarrow>
               (case closest [''div'', ''section'', ''a'', ''span''] el of
                  None \<Rightarrow> None
                | Some parent \<Rightarrow>
                    find (\<lambda>plan. includes_str (trim (textContent parent)) plan)
                      [''Free'', ''Core'', ''Pro'', ''Teams'', ''Enterprise''])))\<close>

definition extractTeamName :: "window \<Rightarrow> string option" where
  \<open>extractTeamName w =
     (case queryFirst w
             [''[data-testid="team-name"]'',
              ''[data-testid="organization-name"]'',
              ''[aria-label*="team" i]'',
              ''[aria-label*="organization" i]''] of
        Some el \<Rightarrow> getText (Some el)
      | None \<Rightarrow> None)\<close>

subsection \<open>The metric set and the health score\<close>

text \<open>
  The object built by \<open>extractMakeMetrics\<close>. A field that may hold \<open>null\<close> is an option;
  \<open>timestamp\<close> is an option because objects read back from storage may lack it.
\<close>

record metrics =
  version :: string
  timestamp :: "string option"
  platform :: string
  url :: string
  operationsUsed :: "jsnum option"
  operationsLimit :: "jsnum option"
  totalScenarios :: jsnum
  activeScenarios :: nat
  errorScenarios :: nat
  inactiveScenarios :: nat
  planName :: "string option"
  teamName :: "string option"
  operationsUsagePercent :: "jsnum option"
  errorRate :: "jsnum option"
  healthScore :: "jsnum option"

definition FLOWFIX_VERSION :: string where
  "FLOWFIX_VERSION = ''1.1.0''"

text \<open>\<open>x > 0\<close> on a number.\<close>

definition positive :: "jsnum \<Rightarrow> bool" where
  "positive x = js_less (Num 0) x"

text \<open>\<open>a || b\<close> where \<open>a\<close> is a count and \<open>b\<close> may be \<open>null\<close>, and \<open>v || 0\<close>.\<close>

definition lengthOr :: "nat \<Rightarrow> jsnum option \<Rightarrow> jsnum option" where
  "lengthOr n alt = (if n \<noteq> 0 then Some (Num (of_nat n)) else alt)"

definition orZero :: "jsnum option \<Rightarrow> jsnum" where
  "orZero v = (case v of Some x \<Rightarrow> if truthy (Some x) then x else Num 0 | None \<Rightarrow> Num 0)"

text \<open>
  The three \<open>if\<close> statements of \<open>calculateHealthScore\<close>, each taking the score so far
  and giving the score after it.
\<close>

definition afterUsage :: "jsnum option \<Rightarrow> jsnum \<Rightarrow> jsnum" where
  "afterUsage percent sc =
     (case percent of
        Some p \<Rightarrow>
          if truthy (Some p) then
            (if js_less (Num 90) p then js_sub sc (Num 30)
             else if js_less (Num 75) p then js_sub sc (Num 15)
             else if js_less (Num 50) p then js_sub sc (Num 5)
             else sc)
          else sc
      | None \<Rightarrow> sc)"

definition afterErrors :: "jsnum option \<Rightarrow> jsnum \<Rightarrow> jsnum" where
  "afterErrors rate sc =
     (case rate of
        Some e \<Rightarrow>
          if truthy (Some e) then js_sub sc (Math_min (js_mul e (Num 2)) (Num 40)) else sc
      | None \<Rightarrow> sc)"

definition afterInactive :: "nat \<Rightarrow> jsnum \<Rightarrow> jsnum \<Rightarrow> jsnum" where
  "afterInactive inactive tot sc =
     (if inactive > 0 \<and> positive tot then
        (let inactiveRate = js_mul (js_div (Num (of_nat inactive)) tot) (Num 100)
         in js_sub sc (Math_min (js_div inactiveRate (Num 2)) (Num 15)))
      else sc)"

definition calculateHealthScore :: "metrics \<Rightarrow> jsnum" where
  "calculateHealthScore m =
     Math_max (Num 0) (Math_round
       (afterInactive (inactiveScenarios m) (totalScenarios m)
          (afterErrors (errorRate m)
             (afterUsage (operationsUsagePercent m) (Num 100)))))"

text \<open>
  The two derived fields. Each starts as \<open>null\<close> and is assigned under an \<open>if\<close>, so the
  value is \<open>None\<close> when the condition of the \<open>if\<close> is false.
\<close>

definition usagePercentOf :: "jsnum option \<Rightarrow> jsnum option \<Rightarrow> jsnum option" where
  "usagePercentOf used limit =
     (if truthy used \<and> truthy limit then
        (case (used, limit) of
           (Some u, Some l) \<Rightarrow> Some (Math_round (js_mul (js_div u l) (Num 100)))
         | _ \<Rightarrow> None)
      else None)"

definition errorRateOf :: "nat \<Rightarrow> jsnum \<Rightarrow> jsnum option" where
  "errorRateOf errors tot =
     (if positive tot
      then Some (Math_round (js_mul (js_div (Num (of_nat errors)) tot) (Num 100)))
      else None)"

definition extractMakeMetrics :: "window \<Rightarrow> metrics" where
  \<open>extractMakeMetrics w =
     (let scenarioList = extractScenarioList w;
          totalScenarios0 =
            lengthOr (length scenarioList)
              (extractNumber (getText (queryFirst w
                 [''[data-testid="scenario-count"]'',
                  ''[aria-label*="total scenarios" i]''])));
          m = \<lparr> version = FLOWFIX_VERSION,
                timestamp = Some (now_iso w),
                platform = ''make'',
                url = location_href w,
                operationsUsed = extractOperationsUsed w,
                operationsLimit = extractOperationsLimit w,
                totalScenarios = orZero totalScenarios0,
                activeScenarios = countScenariosByStatus w ''active'',
                errorScenarios = countScenariosByStatus w ''error'',
                inactiveScenarios = countScenariosByStatus w ''inactive'',
                planName = extractPlanName w,
                teamName = extractTeamName w,
                operationsUsagePercent = None,
                errorRate = None,
                healthScore = None \<rparr>;
          m1 = m\<lparr>operationsUsagePercent :=
                    usagePercentOf (operationsUsed m) (operationsLimit m)\<rparr>;
          m2 = m1\<lparr>errorRate := errorRateOf (errorScenarios m1) (totalScenarios m1)\<rparr>
      in m2\<lparr>healthScore := Some (calculateHealthScore m2)\<rparr>)\<close>

definition getScoreColor :: "jsnum \<Rightarrow> string" where
  "getScoreColor score =
     (if js_le (Num 80) score then ''#22c55e''
      else if js_le (Num 60) score then ''#eab308''
      else if js_le (Num 40) score then ''#f97316''
      else ''#ef4444'')"

section \<open>Messages between the contexts\<close>

datatype message =
    METRICS_EXTRACTED metrics
  | METRICS_EXTRACTION_FAILED string
  | OPEN_POPUP "metrics option"
  | GET_METRICS
  | ANALYZE_TAB
  | EXTRACT_METRICS
  | OtherMessage string

section \<open>The polling controller of the content script\<close>

text \<open>
  The state that \<open>init\<close> and its closures share, with the effects they have on the
  outside: \<open>timers\<close> holds the delay of every \<open>setTimeout(poll, delay)\<close> that has not
  fired yet, the oldest first; \<open>scheduled\<close> is the log of every delay ever handed to
  \<open>setTimeout\<close>; \<open>storage\<close> is the \<open>makeMetrics\<close> entry of \<open>chrome.storage.local\<close>;
  \<open>badge\<close> is the metric set shown by the injected health badge; \<open>sent\<close> is the log of
  \<open>chrome.runtime.sendMessage\<close>; \<open>observing\<close> says that the navigation observer is
  installed.
\<close>

record controller =
  attempts :: nat
  pollDelay :: rat
  lastUrl :: string
  observing :: bool
  timers :: "rat list"
  scheduled :: "rat list"
  storage :: "metrics option"
  badge :: "metrics option"
  sent :: "message list"

definition maxAttempts :: nat where
  "maxAttempts = 30"

definition hasData :: "metrics \<Rightarrow> bool" where
  "hasData m = (positive (totalScenarios m) \<or> operationsUsed m \<noteq> None)"

definition tryExtract :: "window \<Rightarrow> controller \<Rightarrow> bool \<times> controller" where
  "tryExtract w s =
     (let s1 = s\<lparr>attempts := attempts s + 1\<rparr>;
          m = extractMakeMetrics w
      in if hasData m \<or> attempts s1 \<ge> maxAttempts then
           (if hasData m then
              (True, s1\<lparr>storage := Some m, badge := Some m,
                         sent := sent s1 @ [METRICS_EXTRACTED m]\<rparr>)
            else
              (True, s1\<lparr>sent := sent s1 @ [METRICS_EXTRACTION_FAILED (location_href w)]\<rparr>))
         else (False, s1))"

definition setTimeout :: "rat \<Rightarrow> controller \<Rightarrow> controller" where
  "setTimeout delay s = s\<lparr>timers := timers s @ [delay], scheduled := scheduled s @ [delay]\<rparr>"

definition poll :: "window \<Rightarrow> controller \<Rightarrow> controller" where
  "poll w s =
     (case tryExtract w s of
        (True, s1) \<Rightarrow> s1
      | (False, s1) \<Rightarrow>
          (let s2 = s1\<lparr>pollDelay := min (pollDelay s1 * (3 / 2)) 3000\<rparr>
           in setTimeout (pollDelay s2) s2))"

text \<open>
  \<open>init\<close> on a page \<open>w\<close>, with \<open>stored\<close> the \<open>makeMetrics\<close> entry already in storage.
  When the first attempt ends the run, \<open>init\<close> returns before it installs the observer.
\<close>

definition init :: "metrics option \<Rightarrow> window \<Rightarrow> controller" where
  "init stored w =
     (let s0 = \<lparr> attempts = 0, pollDelay = 500, lastUrl = [], observing = False,
                 timers = [], scheduled = [], storage = stored, badge = None, sent = [] \<rparr>
      in case tryExtract w s0 of
           (True, s1) \<Rightarrow> s1
         | (False, s1) \<Rightarrow>
             (setTimeout (pollDelay s1) s1)\<lparr>lastUrl := location_href w, observing := True\<rparr>)"

text \<open>The callback of the navigation observer, run on a mutation of the page.\<close>

definition urlObserver :: "window \<Rightarrow> controller \<Rightarrow> controller" where
  "urlObserver w s =
     (if location_href w \<noteq> lastUrl s then
        setTimeout 1000 (s\<lparr>lastUrl := location_href w, attempts := 0\<rparr>)
      else s)"

text \<open>
  What the browser can do next: let the pending timer number \<open>i\<close> fire (it leaves the
  pending list and \<open>poll\<close> runs on the page as it is then), or deliver a mutation to the
  observer.
\<close>

datatype event = TimerFires nat window | Mutation window

definition removeAt :: "nat \<Rightarrow> 'a list \<Rightarrow> 'a list" where
  "removeAt i xs = take i xs @ drop (Suc i) xs"

fun step :: "controller \<Rightarrow> event \<Rightarrow> controller" where
  "step s (TimerFires i w) =
     (if i < length (timers s) then poll w (s\<lparr>timers := removeAt i (timers s)\<rparr>) else s)"
| "step s (Mutation w) = (if observing s then urlObserver w s else s)"

definition run :: "controller \<Rightarrow> event list \<Rightarrow> controller" where
  "run s evs = foldl step s evs"

section \<open>The background coordinator\<close>

text \<open>
  \<open>metricsStore\<close> maps a platform name to its latest metric set. The badge of the
  extension icon is kept per tab (\<open>None\<close> is the badge with no tab id): \<open>badgeText\<close>
  holds the number whose decimal form is the badge text, \<open>None\<close> for the empty text.
\<close>

record coordinator =
  metricsStore :: "string \<Rightarrow> metrics option"
  badgeText :: "nat option \<Rightarrow> jsnum option"
  badgeColor :: "nat option \<Rightarrow> string option"

text \<open>
  What the listener does with the response channel: nothing, an immediate response with
  the store, or \<open>return true\<close> so that \<open>analyzeCurrentTab\<close> may answer later.
\<close>

datatype reply = NoReply | StoreReply "string \<Rightarrow> metrics option" | KeepChannelOpen

definition handleMetricsExtracted :: "metrics \<Rightarrow> nat option \<Rightarrow> coordinator \<Rightarrow> coordinator" where
  "handleMetricsExtracted m tab c =
     (if platform m = [] then c
      else
        (let score = orZero (healthScore m)
         in c\<lparr>metricsStore := (metricsStore c)(platform m := Some m),
              badgeText := (badgeText c)(tab := Some score),
              badgeColor := (badgeColor c)(tab := Some (getScoreColor score))\<rparr>))"

fun onMessage :: "message \<Rightarrow> nat option \<Rightarrow> coordinator \<Rightarrow> coordinator \<times> reply" where
  "onMessage (METRICS_EXTRACTED m) tab c = (handleMetricsExtracted m tab c, NoReply)"
| "onMessage GET_METRICS tab c = (c, StoreReply (metricsStore c))"
| "onMessage (OPEN_POPUP (Some m)) tab c =
     (c\<lparr>metricsStore := (metricsStore c)(platform m := Some m)\<rparr>, NoReply)"
| "onMessage (OPEN_POPUP None) tab c = (c, NoReply)"
| "onMessage ANALYZE_TAB tab c = (c, KeepChannelOpen)"
| "onMessage _ tab c = (c, NoReply)"

text \<open>
  The object sent back on the \<open>ANALYZE_TAB\<close> channel. \<open>analyzeCurrentTab\<close> gets the
  active tab's address and what \<open>chrome.tabs.sendMessage\<close> gave: \<open>Inl\<close> the message of the
  exception it raised, \<open>Inr\<close> the content script's response (\<open>None\<close> for \<open>undefined\<close>).
\<close>

record response =
  error :: "string option"
  metricsOf :: "metrics option"

definition analyzeCurrentTab :: "string option \<Rightarrow> string + response option \<Rightarrow> response option" where
  "analyzeCurrentTab tabUrl contentReply =
     (case tabUrl of
        None \<Rightarrow> Some \<lparr>error = Some ''No active tab'', metricsOf = None\<rparr>
      | Some u \<Rightarrow>
          if u = [] then Some \<lparr>error = Some ''No active tab'', metricsOf = None\<rparr>
          else if \<not> includes_str u ''zapier.com'' \<and> \<not> includes_str u ''make.com'' then
            Some \<lparr>error = Some ''Not on a supported platform'', metricsOf = None\<rparr>
          else
            (case contentReply of
               Inl msg \<Rightarrow> Some \<lparr>error = Some msg, metricsOf = None\<rparr>
             | Inr r \<Rightarrow> r))"

section \<open>The popup\<close>

text \<open>
  \<open>isRecent\<close>, with \<open>getTime\<close> standing for \<open>new Date(timestamp).getTime()\<close> and \<open>now\<close>
  for \<open>Date.now()\<close>, both in milliseconds.
\<close>

definition isRecent :: "(string \<Rightarrow> jsnum) \<Rightarrow> rat \<Rightarrow> string option \<Rightarrow> bool" where
  "isRecent getTime now ts =
     (case ts of
        None \<Rightarrow> False
      | Some t \<Rightarrow>
          if t = [] then False
          else (case getTime t of Num ms \<Rightarrow> now - ms < 5 * 60 * 1000 | _ \<Rightarrow> False))"

text \<open>
  The state of the popup after \<open>showState\<close>. For the health view the model keeps the
  score ring of \<open>displayMetrics\<close> (score, colour, critical pulse) and the platform name;
  the metric cards and the recommendations are left out.
\<close>

record health_view =
  score :: jsnum
  color :: string
  critical :: bool
  platformName :: string

datatype view = Loading | NoPlatform | Health health_view

definition displayMetrics :: "metrics \<Rightarrow> view" where
  "displayMetrics m =
     (let sc = orZero (healthScore m)
      in Health \<lparr> score = sc,
                  color = getScoreColor sc,
                  critical = js_less sc (Num 40),
                  platformName = (if platform m = ''zapier'' then ''Zapier'' else ''Make.com'') \<rparr>)"

text \<open>
  What the popup is given from outside: the clock, the active tab's address and the
  storage when it opens, the outcome of its \<open>ANALYZE_TAB\<close> request (\<open>Inl\<close> a rejected
  request), and the tab's address and the storage two seconds after the response.
\<close>

record popup_env =
  getTime :: "string \<Rightarrow> jsnum"
  now :: rat
  tabUrl :: "string option"
  stored :: "string \<Rightarrow> metrics option"
  analyzeReply :: "string + response option"
  tabUrlLater :: "string option"
  storedLater :: "string \<Rightarrow> metrics option"

definition urlIncludes :: "string option \<Rightarrow> string \<Rightarrow> bool" where
  "urlIncludes u sub = (case u of None \<Rightarrow> False | Some a \<Rightarrow> includes_str a sub)"

definition nonEmpty :: "string option \<Rightarrow> bool" where
  "nonEmpty v = (case v of None \<Rightarrow> False | Some a \<Rightarrow> a \<noteq> [])"

text \<open>\<open>requestMetrics\<close>: the final view and the messages sent to the coordinator.\<close>

definition requestMetrics :: "popup_env \<Rightarrow> view \<times> message list" where
  "requestMetrics env =
     (case analyzeReply env of
        Inl msg \<Rightarrow> (NoPlatform, [ANALYZE_TAB])
      | Inr r \<Rightarrow>
          if nonEmpty (Option.bind r error) then (NoPlatform, [ANALYZE_TAB])
          else
            (case Option.bind r metricsOf of
               Some m \<Rightarrow> (displayMetrics m, [ANALYZE_TAB])
             | None \<Rightarrow>
                 (let storageKey =
                        (if urlIncludes (tabUrlLater env) ''zapier.com'' then ''zapierMetrics''
                         else ''makeMetrics'')
                  in case storedLater env storageKey of
                       Some m \<Rightarrow> (displayMetrics m, [ANALYZE_TAB])
                     | None \<Rightarrow> (NoPlatform, [ANALYZE_TAB]))))"

text \<open>The \<open>DOMContentLoaded\<close> handler of the popup.\<close>

definition popupLoaded :: "popup_env \<Rightarrow> view \<times> message list" where
  "popupLoaded env =
     (let isZapier = urlIncludes (tabUrl env) ''zapier.com'';
          isMake = urlIncludes (tabUrl env) ''make.com''
      in if \<not> isZapier \<and> \<not> isMake then (NoPlatform, [])
         else
           (let storageKey = (if isZapier then ''zapierMetrics'' else ''makeMetrics'')
            in case stored env storageKey of
                 Some m \<Rightarrow>
                   if isRecent (getTime env) (now env) (timestamp m) then (displayMetrics m, [])
                   else requestMetrics env
               | None \<Rightarrow> requestMetrics env))"

section \<open>Pages and states used in the examples\<close>

text \<open>A page on which no locator of the script finds anything.\<close>

definition emptyPage :: window where
  "emptyPage =
     \<lparr> location_href = ''https://eu1.make.com/scenarios'',
       querySelectorAll = (\<lambda>sel. Some []),
       body = Some [],
       now_iso = ''2026-02-16T10:00:00.000Z'' \<rparr>"

text \<open>The same page after a client-side navigation.\<close>

definition navigatedPage :: window where
  "navigatedPage = emptyPage\<lparr>location_href := ''https://eu1.make.com/templates''\<rparr>"

text \<open>No locator matches: every query is empty or rejected, and there is no text node.\<close>

definition noLocator :: "window \<Rightarrow> bool" where
  "noLocator w =
     ((\<forall>sel. querySelectorAll w sel = None \<or> querySelectorAll w sel = Some []) \<and>
      (body w = None \<or> body w = Some []))"

text \<open>
  Scenario A. The usage area is a \<open>div\<close> with an Operations label and a usage element
  reading \<open>1,234 of 10,000\<close>; there are 15 scenario rows, each with a \<open>data-status\<close>:
  2 \<open>error\<close>, 3 \<open>paused\<close> and 10 \<open>active\<close>.
\<close>

definition bodyEl :: element where
  "bodyEl = Element ''body'' [] [] []"

definition usageArea :: element where
  "usageArea = Element ''div'' [] ''Operations 1,234 of 10,000'' [bodyEl]"

definition usageLabel :: element where
  "usageLabel = Element ''span'' [] ''Operations '' [usageArea, bodyEl]"

definition usageElement :: element where
  "usageElement =
     Element ''span'' [(''data-testid'', ''operations-used'')] ''1,234 of 10,000''
       [usageArea, bodyEl]"

definition scenarioRow :: "string \<Rightarrow> element" where
  "scenarioRow st =
     Element ''tr'' [(''data-testid'', ''scenario-row''), (''data-status'', st)] ''Scenario''
       [bodyEl]"

definition scenarioRows :: "element list" where
  "scenarioRows =
     replicate 2 (scenarioRow ''error'') @ replicate 3 (scenarioRow ''paused'') @
     replicate 10 (scenarioRow ''active'')"

definition rowsWithStatus :: "element list \<Rightarrow> string \<Rightarrow> element list" where
  "rowsWithStatus rows st = filter (\<lambda>e. getAttribute e ''data-status'' = Some st) rows"

definition scenarioA :: window where
  \<open>scenarioA =
     \<lparr> location_href = ''https://eu1.make.com/scenarios'',
       querySelectorAll = (\<lambda>sel.
         if sel = ''[data-testid="operations-used"]'' then Some [usageElement]
         else if sel = ''[data-testid="scenario-row"]'' then Some scenarioRows
         else if sel = ''[data-status="error"]'' then Some (rowsWithStatus scenarioRows ''error'')
         else if sel = ''[data-status="paused"]'' then Some (rowsWithStatus scenarioRows ''paused'')
         else if sel = ''[data-status="active"]'' then Some (rowsWithStatus scenarioRows ''active'')
         else Some []),
       body = Some ([(''Operations '', usageLabel), (''1,234 of 10,000'', usageElement)] @
                    map (\<lambda>r. (''Scenario'', r)) scenarioRows),
       now_iso = ''2026-02-16T10:00:00.000Z'' \<rparr>\<close>

text \<open>
  Scenario A without the \<open>data-testid\<close> on the usage element: the usage text is found
  only through the Operations label.
\<close>

definition plainUsage :: element where
  "plainUsage = Element ''span'' [] ''1,234 of 10,000'' [usageArea, bodyEl]"

definition scenarioA_label :: window where
  \<open>scenarioA_label =
     \<lparr> location_href = ''https://eu1.make.com/scenarios'',
       querySelectorAll = (\<lambda>sel.
         if sel = ''[data-testid="scenario-row"]'' then Some scenarioRows
         else if sel = ''[data-status="error"]'' then Some (rowsWithStatus scenarioRows ''error'')
         else if sel = ''[data-status="paused"]'' then Some (rowsWithStatus scenarioRows ''paused'')
         else if sel = ''[data-status="active"]'' then Some (rowsWithStatus scenarioRows ''active'')
         else Some []),
       body = Some ([(''Operations '', usageLabel), (''1,234 of 10,000'', plainUsage)] @
                    map (\<lambda>r. (''Scenario'', r)) scenarioRows),
       now_iso = ''2026-02-16T10:00:00.000Z'' \<rparr>\<close>


text \<open>A page with structured usage elements reading \<open>0\<close> used of a limit of \<open>10,000\<close>.\<close>

definition zeroUsagePage :: window where
  \<open>zeroUsagePage =
     emptyPage\<lparr>querySelectorAll := (\<lambda>sel.
       if sel = ''[data-testid="operations-used"]''
       then Some [Element ''span'' [(''data-testid'', ''operations-used'')] ''0'' [bodyEl]]
       else if sel = ''[data-testid="operations-limit"]''
       then Some [Element ''span'' [(''data-testid'', ''operations-limit'')] ''10,000'' [bodyEl]]
       else Some [])\<rparr>\<close>

text \<open>Three rows in the error category: two marked \<open>error\<close>, one marked \<open>failed\<close>.\<close>

definition mixedRows :: "element list" where
  "mixedRows = [scenarioRow ''error'', scenarioRow ''error'', scenarioRow ''failed'']"

definition mixedStatusPage :: window where
  \<open>mixedStatusPage =
     emptyPage\<lparr>querySelectorAll := (\<lambda>sel.
       if sel = ''[data-testid="scenario-row"]'' then Some mixedRows
       else if sel = ''[data-status="error"]'' then Some (rowsWithStatus mixedRows ''error'')
       else if sel = ''[data-status="failed"]'' then Some (rowsWithStatus mixedRows ''failed'')
       else Some [])\<rparr>\<close>

text \<open>The delay of the timer set after the failed attempt number \<open>n + 1\<close>.\<close>

definition backoff :: "nat \<Rightarrow> rat" where
  "backoff n = min (500 * (3 / 2) ^ n) 3000"

text \<open>The events of a run in which the single pending timer fires on each page of a list.\<close>

definition timerRuns :: "window list \<Rightarrow> event list" where
  "timerRuns ws = map (TimerFires 0) ws"

text \<open>A coordinator that has stored nothing and shows no badge.\<close>

definition freshCoordinator :: coordinator where
  "freshCoordinator =
     \<lparr> metricsStore = (\<lambda>k. None), badgeText = (\<lambda>t. None), badgeColor = (\<lambda>t. None) \<rparr>"

text \<open>
  A popup opened on a Make.com tab, with \<open>entry\<close> in storage under \<open>makeMetrics\<close> and an
  \<open>ANALYZE_TAB\<close> request that the coordinator answers with an error.
\<close>

definition makePopup :: "metrics option \<Rightarrow> popup_env" where
  "makePopup entry =
     \<lparr> getTime = (\<lambda>t. NaN),
       now = 1771236000000,
       tabUrl = Some ''https://eu1.make.com/scenarios'',
       stored = (\<lambda>k. if k = ''makeMetrics'' then entry else None),
       analyzeReply =
         Inr (analyzeCurrentTab (Some ''https://eu1.make.com/scenarios'')
                (Inl ''Could not establish connection. Receiving end does not exist.'')),
       tabUrlLater = Some ''https://eu1.make.com/scenarios'',
       storedLater = (\<lambda>k. if k = ''makeMetrics'' then entry else None) \<rparr>"

text \<open>
  The controller while it polls a page that never has data: after \<open>k\<close> timers have
  fired it has made \<open>k + 1\<close> attempts and waits on one timer. \<open>exhaustedState\<close> is what
  it stops in.
\<close>

definition pollingState :: "metrics option \<Rightarrow> string \<Rightarrow> nat \<Rightarrow> controller" where
  "pollingState st u k =
     \<lparr> attempts = Suc k, pollDelay = backoff k, lastUrl = u, observing = True,
       timers = [backoff k], scheduled = map backoff [0..<Suc k],
       storage = st, badge = None, sent = [] \<rparr>"

definition exhaustedState :: "metrics option \<Rightarrow> string \<Rightarrow> string \<Rightarrow> controller" where
  "exhaustedState st u v =
     \<lparr> attempts = 30, pollDelay = backoff 28, lastUrl = u, observing = True,
       timers = [], scheduled = map backoff [0..<29],
       storage = st, badge = None, sent = [METRICS_EXTRACTION_FAILED v] \<rparr>"

text \<open>
  The outcome of an \<open>ANALYZE_TAB\<close> request carries no metric set: the request was
  rejected, or the response is \<open>undefined\<close> or has no \<open>metrics\<close>.
\<close>

definition replyWithoutMetrics :: "string + response option \<Rightarrow> bool" where
  "replyWithoutMetrics r =
     (case r of Inl msg \<Rightarrow> True | Inr resp \<Rightarrow> Option.bind resp metricsOf = None)"

text \<open>The events of a run without navigation: timer number \<open>i\<close> fires on page \<open>w\<close>.\<close>

definition timerEvents :: "(nat \<times> window) list \<Rightarrow> event list" where
  "timerEvents fs = map (\<lambda>(i, w). TimerFires i w) fs"









text \<open>
  A page with two status elements: the text of the first contains two synonyms of the
  error category, the text of the second none.
\<close>

definition twoSynonymPage :: window where
  \<open>twoSynonymPage =
     emptyPage\<lparr>querySelectorAll := (\<lambda>sel.
       if sel = ''[class*="status"]''
       then Some [Element ''span'' [(''class'', ''status'')] ''Failed with error'' [bodyEl],
                  Element ''span'' [(''class'', ''status'')] ''Running'' [bodyEl]]
       else Some [])\<rparr>\<close>

text \<open>A stored metric set that lacks its \<open>timestamp\<close>.\<close>

definition untimedEntry :: metrics where
  "untimedEntry = (extractMakeMetrics emptyPage)\<lparr>timestamp := None\<rparr>"

section \<open>Evaluation lemmas\<close>

lemmas string_defs =
  removeCommas_def removeSpaces_def matchNumToken_def isNumChar_def isDigit_def isSpace_def
  parseFloat_def parseInt_def Let_def digitsVal_def digitVal_def parseExponent_def pow10_def
  isGroupChar_def matchAllGroups_def ofMatchAt_def trim_def toLowerCase_def lowerChar_def

text \<open>Small whole numbers are doubles.\<close>

lemma fl_values:
  "fl 0 = Num 0"
  "fl 23 = Num 23"
  "fl 40 = Num 40"
  "fl 42 = Num 42"
  "fl 1234 = Num 1234"
  "fl 10000 = Num 10000"
  by code_simp+

lemma extractNumber_examples:
  "extractNumber (Some ''1,234 of 10,000'') = Some (Num 1234)"
  "extractNumber (Some ''0'') = Some (Num 0)"
  "extractNumber (Some ''10,000'') = Some (Num 10000)"
  "extractNumber (Some ''23'') = Some (Num 23)"
  "extractNumber (Some ''40'') = Some (Num 40)"
  by (simp_all add: extractNumber_def string_defs fl_values)

lemma extractNumber_no_digit_no_dot:
  assumes "\<forall>c \<in> set t. \<not> isDigit c \<and> c \<noteq> CHR ''.''"
  shows "extractNumber (Some t) = None"
proof -
  from assms have "\<forall>x \<in> set (removeSpaces (removeCommas t)). \<not> isNumChar x"
    by (auto simp: removeSpaces_def removeCommas_def isNumChar_def)
  then have d: "dropWhile (\<lambda>c. \<not> isNumChar c) (removeSpaces (removeCommas t)) = []"
    by simp
  show ?thesis
    by (simp add: extractNumber_def matchNumToken_def d)
qed

lemma makePopup_url:
  "urlIncludes (tabUrl (makePopup e)) ''make.com''"
  "\<not> urlIncludes (tabUrl (makePopup e)) ''zapier.com''"
  "\<not> urlIncludes (tabUrlLater (makePopup e)) ''zapier.com''"
  by (simp_all add: makePopup_def urlIncludes_def)

section \<open>The numeric normalizer\<close>

text \<open>
  C7. \<open>extractNumber\<close> is a total function of its text (nothing in it can raise), and the
  examples of the claim hold: \<open>1,234\<close> gives 1234, \<open>42%\<close> gives 42 and the empty text gives
  \<open>null\<close>. A text without a digit does not always give \<open>null\<close>: the pattern \<open>[\d.]+\<close> also
  matches a run of dots, and \<open>parseFloat\<close> of such a run is \<open>NaN\<close>, which is not \<open>null\<close>.
  The text \<open>Loading...\<close> is an example.
\<close>

theorem extractNumber_dots_give_NaN:
  "extractNumber (Some ''Loading...'') = Some NaN \<and>
   extractNumber (Some ''1,234'') = Some (Num 1234) \<and>
   extractNumber (Some ''42%'') = Some (Num 42) \<and>
   extractNumber (Some []) = None"
  by (simp add: extractNumber_def string_defs fl_values)

section \<open>Freshness of a stored entry\<close>

text \<open>
  C10. \<open>isRecent\<close> is false for a missing timestamp. So when the popup opens on a
  supported tab and the stored entry has no timestamp, the handler does not display the
  entry but calls \<open>requestMetrics\<close>, which sends \<open>ANALYZE_TAB\<close>.
\<close>

theorem missing_timestamp_is_not_recent:
  "isRecent gt n None = False \<and>
   (urlIncludes (tabUrl env) ''zapier.com'' \<or> urlIncludes (tabUrl env) ''make.com'' \<longrightarrow>
    stored env (if urlIncludes (tabUrl env) ''zapier.com'' then ''zapierMetrics'' else ''makeMetrics'')
      = Some m \<longrightarrow>
    timestamp m = None \<longrightarrow>
    popupLoaded env = requestMetrics env \<and> snd (requestMetrics env) = [ANALYZE_TAB] \<and>
    popupLoaded env \<noteq> (displayMetrics m, []))"
  by (auto simp: isRecent_def popupLoaded_def Let_def requestMetrics_def
      split: sum.split option.split)

text \<open>C10, witness: a Make.com tab whose stored entry has no timestamp.\<close>

theorem missing_timestamp_witness:
  "popupLoaded (makePopup (Some untimedEntry)) = requestMetrics (makePopup (Some untimedEntry)) \<and>
   snd (requestMetrics (makePopup (Some untimedEntry))) = [ANALYZE_TAB]"
proof -
  have a: "stored (makePopup (Some untimedEntry)) ''makeMetrics'' = Some untimedEntry"
    by (simp add: makePopup_def)
  have b: "timestamp untimedEntry = None"
    by (simp add: untimedEntry_def)
  show ?thesis
    using missing_timestamp_is_not_recent [of "\<lambda>t. NaN" 0 "makePopup (Some untimedEntry)" untimedEntry]
      a b makePopup_url
    by simp
qed

section \<open>The fields of the metric set\<close>

lemma extractMakeMetrics_fields:
  "operationsUsed (extractMakeMetrics w) = extractOperationsUsed w"
  "operationsLimit (extractMakeMetrics w) = extractOperationsLimit w"
  "activeScenarios (extractMakeMetrics w) = countScenariosByStatus w ''active''"
  "errorScenarios (extractMakeMetrics w) = countScenariosByStatus w ''error''"
  "inactiveScenarios (extractMakeMetrics w) = countScenariosByStatus w ''inactive''"
  "planName (extractMakeMetrics w) = extractPlanName w"
  "teamName (extractMakeMetrics w) = extractTeamName w"
  "url (extractMakeMetrics w) = location_href w"
  "platform (extractMakeMetrics w) = ''make''"
  "timestamp (extractMakeMetrics w) = Some (now_iso w)"
  by (simp_all add: extractMakeMetrics_def Let_def)

lemma extractMakeMetrics_total:
  \<open>totalScenarios (extractMakeMetrics w) =
     orZero (lengthOr (length (extractScenarioList w))
       (extractNumber (getText (queryFirst w
          [''[data-testid="scenario-count"]'', ''[aria-label*="total scenarios" i]'']))))\<close>
  by (simp add: extractMakeMetrics_def Let_def)

lemma extractMakeMetrics_derived:
  "operationsUsagePercent (extractMakeMetrics w) =
     usagePercentOf (operationsUsed (extractMakeMetrics w)) (operationsLimit (extractMakeMetrics w))"
  "errorRate (extractMakeMetrics w) =
     errorRateOf (errorScenarios (extractMakeMetrics w)) (totalScenarios (extractMakeMetrics w))"
  "healthScore (extractMakeMetrics w) =
     Some (Math_max (Num 0) (Math_round
       (afterInactive (inactiveScenarios (extractMakeMetrics w))
          (totalScenarios (extractMakeMetrics w))
          (afterErrors (errorRate (extractMakeMetrics w))
             (afterUsage (operationsUsagePercent (extractMakeMetrics w)) (Num 100))))))"
  by (simp_all add: extractMakeMetrics_def Let_def calculateHealthScore_def)


lemma noLocator_queries:
  assumes "noLocator w"
  shows "queryFirst w sels = None" and "queryAllFirst w sels = []"
proof -
  from assms have q: "\<And>sel. querySelectorAll w sel = None \<or> querySelectorAll w sel = Some []"
    by (simp add: noLocator_def)
  show "queryFirst w sels = None"
  proof (induction sels)
    case Nil
    show ?case by simp
  next
    case (Cons sel sels)
    with q [of sel] show ?case by auto
  qed
  show "queryAllFirst w sels = []"
  proof (induction sels)
    case Nil
    show ?case by simp
  next
    case (Cons sel sels)
    with q [of sel] show ?case by auto
  qed
qed

lemma noLocator_text:
  assumes "noLocator w"
  shows "findByText w t ex = None" and "findValueNearLabel w t = None"
proof -
  from assms have "body w = None \<or> body w = Some []"
    by (simp add: noLocator_def)
  then have a: "findByText w t e = None" for e
    by (auto simp: findByText_def)
  show "findByText w t ex = None"
    by (rule a)
  show "findValueNearLabel w t = None"
    by (simp add: findValueNearLabel_def a)
qed

lemma noLocator_counts:
  assumes "noLocator w"
  shows "countScenariosByStatus w status = 0"
proof -
  have "countStructured w ts = None" for ts
    by (induction ts)
      (simp_all add: noLocator_queries [OF assms] del: queryAllFirst.simps queryFirst.simps)
  then show ?thesis
    by (simp add: countScenariosByStatus_def countByText_def statusElements_def
        countToggles_def noLocator_queries [OF assms] Let_def
        del: queryAllFirst.simps queryFirst.simps)
qed

lemma noLocator_metrics:
  assumes "noLocator w"
  shows "operationsUsed (extractMakeMetrics w) = None"
    and "operationsLimit (extractMakeMetrics w) = None"
    and "operationsUsagePercent (extractMakeMetrics w) = None"
    and "errorRate (extractMakeMetrics w) = None"
    and "planName (extractMakeMetrics w) = None"
    and "teamName (extractMakeMetrics w) = None"
    and "totalScenarios (extractMakeMetrics w) = Num 0"
    and "activeScenarios (extractMakeMetrics w) = 0"
    and "errorScenarios (extractMakeMetrics w) = 0"
    and "inactiveScenarios (extractMakeMetrics w) = 0"
proof -
  note q = noLocator_queries [OF assms] noLocator_text [OF assms]
  show u: "operationsUsed (extractMakeMetrics w) = None"
    by (simp add: extractMakeMetrics_fields extractOperationsUsed_def q
        del: queryAllFirst.simps queryFirst.simps)
  show l: "operationsLimit (extractMakeMetrics w) = None"
    by (simp add: extractMakeMetrics_fields extractOperationsLimit_def q
        del: queryAllFirst.simps queryFirst.simps)
  show "operationsUsagePercent (extractMakeMetrics w) = None"
    by (simp add: extractMakeMetrics_derived u l usagePercentOf_def)
  show t: "totalScenarios (extractMakeMetrics w) = Num 0"
    by (simp add: extractMakeMetrics_total extractScenarioList_def q lengthOr_def orZero_def
        getText_def extractNumber_def del: queryAllFirst.simps queryFirst.simps)
  show "errorRate (extractMakeMetrics w) = None"
    by (simp add: extractMakeMetrics_derived t errorRateOf_def positive_def)
  show "planName (extractMakeMetrics w) = None"
    by (simp add: extractMakeMetrics_fields extractPlanName_def q
        del: queryAllFirst.simps queryFirst.simps)
  show "teamName (extractMakeMetrics w) = None"
    by (simp add: extractMakeMetrics_fields extractTeamName_def q
        del: queryAllFirst.simps queryFirst.simps)
  show "activeScenarios (extractMakeMetrics w) = 0"
    "errorScenarios (extractMakeMetrics w) = 0"
    "inactiveScenarios (extractMakeMetrics w) = 0"
    by (simp_all add: extractMakeMetrics_fields noLocator_counts [OF assms])
qed

lemma noLocator_emptyPage: "noLocator emptyPage"
  by (simp add: noLocator_def emptyPage_def)



lemma zeroUsagePage_query:
  \<open>querySelectorAll zeroUsagePage sel =
     (if sel = ''[data-testid="operations-used"]''
       then Some [Element ''span'' [(''data-testid'', ''operations-used'')] ''0'' [bodyEl]]
       else if sel = ''[data-testid="operations-limit"]''
       then Some [Element ''span'' [(''data-testid'', ''operations-limit'')] ''10,000'' [bodyEl]]
       else Some [])\<close>
  by (simp add: zeroUsagePage_def)

subsection \<open>A field whose locators do not match\<close>















section \<open>Unresolved fields\<close>


lemma zeroUsagePage_used: "operationsUsed (extractMakeMetrics zeroUsagePage) = Some (Num 0)"
  by (simp add: extractMakeMetrics_fields extractOperationsUsed_def zeroUsagePage_query
      getText_def trim_def isSpace_def extractNumber_examples)




section \<open>Usage percent and error rate\<close>

text \<open>
  The rounding is that of the doubles, in the order of the script: 23 of 40 is 57 and 29
  errors in 200 is 14, where the exact quotients 57.5 and 14.5 would round to 58 and 15.
  A usage count of \<open>Infinity\<close> is truthy and gives a percent of \<open>Infinity\<close>.
\<close>

lemma double_rounding_examples:
  "usagePercentOf (Some (Num 23)) (Some (Num 40)) = Some (Num 57)"
  "errorRateOf 29 (Num 200) = Some (Num 14)"
  "usagePercentOf (Some PosInf) (Some (Num 100)) = Some PosInf"
  by code_simp+

text \<open>
  C4 (as the code has it). The usage percent is \<open>Math.round((used / limit) * 100)\<close>, each
  operation in double arithmetic, exactly when the usage count and the usage limit are
  both truthy, that is present, not \<open>NaN\<close> and not \<open>0\<close>; otherwise it stays \<open>null\<close>, also
  for a usage count of \<open>0\<close>. The error rate is \<open>Math.round((errors / total) * 100)\<close>,
  computed the same way, exactly when the item total is greater than \<open>0\<close>.
\<close>

theorem usage_percent_and_error_rate:
  "operationsUsagePercent (extractMakeMetrics w) =
     (case (operationsUsed (extractMakeMetrics w), operationsLimit (extractMakeMetrics w)) of
        (Some u, Some l) \<Rightarrow>
          if truthy (Some u) \<and> truthy (Some l)
          then Some (Math_round (js_mul (js_div u l) (Num 100)))
          else None
      | _ \<Rightarrow> None) \<and>
   errorRate (extractMakeMetrics w) =
     (if js_less (Num 0) (totalScenarios (extractMakeMetrics w))
      then Some (Math_round (js_mul
             (js_div (Num (of_nat (errorScenarios (extractMakeMetrics w))))
                (totalScenarios (extractMakeMetrics w)))
             (Num 100)))
      else None)"
  by (simp add: extractMakeMetrics_derived usagePercentOf_def errorRateOf_def positive_def
      split: option.split)

text \<open>
  C4, as the claim states it, fails: with a usage count of \<open>0\<close> and a limit of
  \<open>10,000\<close>, both read from the page, the usage percent is \<open>null\<close> and not \<open>0\<close>.
\<close>

theorem zero_usage_gives_no_percent:
  "operationsUsed (extractMakeMetrics zeroUsagePage) = Some (Num 0) \<and>
   operationsLimit (extractMakeMetrics zeroUsagePage) = Some (Num 10000) \<and>
   operationsUsagePercent (extractMakeMetrics zeroUsagePage) = None"
proof -
  have u: "operationsUsed (extractMakeMetrics zeroUsagePage) = Some (Num 0)"
    by (rule zeroUsagePage_used)
  have l: "operationsLimit (extractMakeMetrics zeroUsagePage) = Some (Num 10000)"
    by (simp add: extractMakeMetrics_fields extractOperationsLimit_def zeroUsagePage_query
        getText_def trim_def isSpace_def extractNumber_examples)
  show ?thesis
    by (simp add: extractMakeMetrics_derived(1) u l usagePercentOf_def)
qed

section \<open>Scenario A\<close>

lemma queryAllFirst_Cons:
  "queryAllFirst w (sel # sels) =
     (case querySelectorAll w sel of
        None \<Rightarrow> queryAllFirst w sels
      | Some els \<Rightarrow> if els = [] then queryAllFirst w sels else els)"
  by (simp split: option.split list.split)

lemma queryFirst_Cons:
  "queryFirst w (sel # sels) =
     (case querySelectorAll w sel of
        None \<Rightarrow> queryFirst w sels
      | Some els \<Rightarrow> if els = [] then queryFirst w sels else Some (hd els))"
  by (simp split: option.split list.split)

lemmas query_eval = queryAllFirst_Cons queryFirst_Cons

lemma rows_eval:
  "length scenarioRows = 15"
  "scenarioRows \<noteq> []"
  "length (rowsWithStatus scenarioRows ''error'') = 2"
  "length (rowsWithStatus scenarioRows ''paused'') = 3"
  "length (rowsWithStatus scenarioRows ''active'') = 10"
  "rowsWithStatus scenarioRows ''error'' \<noteq> []"
  "rowsWithStatus scenarioRows ''paused'' \<noteq> []"
  "rowsWithStatus scenarioRows ''active'' \<noteq> []"
  by (simp_all add: scenarioRows_def rowsWithStatus_def scenarioRow_def getAttribute_def)

lemma find_rows_None:
  "\<not> textMatches ex lbl ''Scenario'' \<Longrightarrow>
   find (\<lambda>n. textMatches ex lbl (fst n)) (map (\<lambda>r. (''Scenario'', r)) rows) = None"
  by (induction rows) auto

lemma label_eval:
  "\<not> textMatches False ''plan'' ''Scenario''"
  "\<not> textMatches False ''plan'' ''Operations ''"
  "\<not> textMatches False ''plan'' ''1,234 of 10,000''"
  "\<not> textMatches False ''operations limit'' ''Scenario''"
  "\<not> textMatches False ''operations limit'' ''Operations ''"
  "\<not> textMatches False ''operations limit'' ''1,234 of 10,000''"
  "textMatches False ''operations'' ''Operations ''"
  by (simp_all add: textMatches_def toLowerCase_def lowerChar_def)

lemma usage_area_text:
  "ofMatch (removeCommas (textContent usageArea)) = Some ''10000''"
  "map (\<lambda>n. parseInt (removeCommas n)) (matchAllGroups (removeCommas (textContent usageArea)))
     = [Num 1234, Num 10000]"
  "parseInt ''10000'' = Num 10000"
  by (simp_all add: usageArea_def string_defs fl_values)

lemma usage_label_area:
  "closest [''div'', ''section''] usageLabel = Some usageArea"
  "closest [''div'', ''section'', ''li'', ''tr'', ''td''] usageLabel = Some usageArea"
  by (simp_all add: closest_def usageLabel_def usageArea_def)

text \<open>The arithmetic of scenario A, in doubles.\<close>

lemma scenario_arithmetic:
  "usagePercentOf (Some (Num 1234)) (Some (Num 10000)) = Some (Num 12)"
  "usagePercentOf (Some (Num 10000)) (Some (Num 10000)) = Some (Num 100)"
  "errorRateOf 2 (Num 15) = Some (Num 13)"
  "Math_max (Num 0) (Math_round
     (afterInactive 3 (Num 15) (afterErrors (Some (Num 13)) (afterUsage (Some (Num 12)) (Num 100)))))
   = Num 64"
  "Math_max (Num 0) (Math_round
     (afterInactive 3 (Num 15) (afterErrors (Some (Num 13)) (afterUsage (Some (Num 100)) (Num 100)))))
   = Num 34"
  by code_simp+

lemma scenarioA_query:
  \<open>querySelectorAll scenarioA sel =
     (if sel = ''[data-testid="operations-used"]'' then Some [usageElement]
      else if sel = ''[data-testid="scenario-row"]'' then Some scenarioRows
      else if sel = ''[data-status="error"]'' then Some (rowsWithStatus scenarioRows ''error'')
      else if sel = ''[data-status="paused"]'' then Some (rowsWithStatus scenarioRows ''paused'')
      else if sel = ''[data-status="active"]'' then Some (rowsWithStatus scenarioRows ''active'')
      else Some [])\<close>
  by (simp add: scenarioA_def)

lemma scenarioA_body:
  "body scenarioA = Some ([(''Operations '', usageLabel), (''1,234 of 10,000'', usageElement)] @
                    map (\<lambda>r. (''Scenario'', r)) scenarioRows)"
  by (simp add: scenarioA_def)

lemma scenarioA_find:
  "findByText scenarioA ''operations'' False = Some usageLabel"
  "findByText scenarioA ''plan'' False = None"
  by (simp_all add: findByText_def scenarioA_body label_eval find_rows_None)

lemma scenarioA_used: "extractOperationsUsed scenarioA = Some (Num 1234)"
  by (simp add: extractOperationsUsed_def scenarioA_query getText_def usageElement_def
      extractNumber_examples trim_def isSpace_def query_eval del: queryFirst.simps(2))

lemma scenarioA_limit: "extractOperationsLimit scenarioA = Some (Num 10000)"
  by (simp add: extractOperationsLimit_def scenarioA_query scenarioA_find orElse_def
      usage_label_area usage_area_text query_eval del: queryFirst.simps(2))

lemma scenarioA_list: "extractScenarioList scenarioA = scenarioRows"
  by (simp add: extractScenarioList_def scenarioA_query rows_eval query_eval
      del: queryAllFirst.simps(2))

lemma scenarioA_counts:
  "countScenariosByStatus scenarioA ''error'' = 2"
  "countScenariosByStatus scenarioA ''inactive'' = 3"
  "countScenariosByStatus scenarioA ''active'' = 10"
  by (simp_all add: countScenariosByStatus_def statusTerms_def statusMap_def statusSelectors_def
      scenarioA_query rows_eval query_eval del: queryAllFirst.simps(2))

lemma scenarioA_plan_team:
  "extractPlanName scenarioA = None"
  "extractTeamName scenarioA = None"
  by (simp_all add: extractPlanName_def extractTeamName_def scenarioA_query scenarioA_find
      query_eval del: queryFirst.simps(2))

lemma scenarioA_total: "totalScenarios (extractMakeMetrics scenarioA) = Num 15"
  by (simp add: extractMakeMetrics_total scenarioA_list rows_eval lengthOr_def orZero_def)

lemma scenarioA_percent: "operationsUsagePercent (extractMakeMetrics scenarioA) = Some (Num 12)"
  by (simp add: extractMakeMetrics_derived(1) extractMakeMetrics_fields scenarioA_used
      scenarioA_limit scenario_arithmetic)

lemma scenarioA_rate: "errorRate (extractMakeMetrics scenarioA) = Some (Num 13)"
  by (simp add: extractMakeMetrics_derived(2) extractMakeMetrics_fields scenarioA_counts
      scenarioA_total scenario_arithmetic)

lemma scenarioA_score: "healthScore (extractMakeMetrics scenarioA) = Some (Num 64)"
  by (simp add: extractMakeMetrics_derived(3) scenarioA_percent scenarioA_rate scenarioA_total
      extractMakeMetrics_fields scenarioA_counts scenario_arithmetic)

text \<open>The same page when the usage text is found only through the label.\<close>

lemma scenarioA_label_query:
  \<open>querySelectorAll scenarioA_label sel =
     (if sel = ''[data-testid="scenario-row"]'' then Some scenarioRows
      else if sel = ''[data-status="error"]'' then Some (rowsWithStatus scenarioRows ''error'')
      else if sel = ''[data-status="paused"]'' then Some (rowsWithStatus scenarioRows ''paused'')
      else if sel = ''[data-status="active"]'' then Some (rowsWithStatus scenarioRows ''active'')
      else Some [])\<close>
  by (simp add: scenarioA_label_def)

lemma scenarioA_label_body:
  "body scenarioA_label =
     Some ([(''Operations '', usageLabel), (''1,234 of 10,000'', plainUsage)] @
           map (\<lambda>r. (''Scenario'', r)) scenarioRows)"
  by (simp add: scenarioA_label_def)

lemma scenarioA_label_find:
  "findByText scenarioA_label ''operations'' False = Some usageLabel"
  by (simp add: findByText_def scenarioA_label_body label_eval)

lemma scenarioA_label_used: "extractOperationsUsed scenarioA_label = Some (Num 10000)"
  by (simp add: extractOperationsUsed_def scenarioA_label_query findValueNearLabel_def
      scenarioA_label_find orElse_def usage_label_area usage_area_text query_eval
      Math_max_def del: queryFirst.simps(2))

lemma scenarioA_label_limit: "extractOperationsLimit scenarioA_label = Some (Num 10000)"
  by (simp add: extractOperationsLimit_def scenarioA_label_query scenarioA_label_find orElse_def
      usage_label_area usage_area_text query_eval del: queryFirst.simps(2))

lemma scenarioA_label_counts:
  "extractScenarioList scenarioA_label = scenarioRows"
  "countScenariosByStatus scenarioA_label ''error'' = 2"
  "countScenariosByStatus scenarioA_label ''inactive'' = 3"
  by (simp_all add: extractScenarioList_def countScenariosByStatus_def statusTerms_def
      statusMap_def statusSelectors_def scenarioA_label_query rows_eval query_eval
      del: queryAllFirst.simps(2))

lemma scenarioA_label_total: "totalScenarios (extractMakeMetrics scenarioA_label) = Num 15"
  by (simp add: extractMakeMetrics_total scenarioA_label_counts rows_eval lengthOr_def orZero_def)

lemma scenarioA_label_percent:
  "operationsUsagePercent (extractMakeMetrics scenarioA_label) = Some (Num 100)"
  by (simp add: extractMakeMetrics_derived(1) extractMakeMetrics_fields scenarioA_label_used
      scenarioA_label_limit scenario_arithmetic)

lemma scenarioA_label_rate: "errorRate (extractMakeMetrics scenarioA_label) = Some (Num 13)"
  by (simp add: extractMakeMetrics_derived(2) extractMakeMetrics_fields scenarioA_label_counts
      scenarioA_label_total scenario_arithmetic)

lemma scenarioA_label_score: "healthScore (extractMakeMetrics scenarioA_label) = Some (Num 34)"
  by (simp add: extractMakeMetrics_derived(3) scenarioA_label_percent scenarioA_label_rate
      scenarioA_label_total extractMakeMetrics_fields scenarioA_label_counts
      scenario_arithmetic)

lemma claimed_set_scores_64:
  assumes "operationsUsagePercent m = Some (Num 12)" and "errorRate m = Some (Num 13)"
    and "inactiveScenarios m = 3" and "totalScenarios m = Num 15"
  shows "calculateHealthScore m = Num 64"
  using assms
  by (simp add: calculateHealthScore_def scenario_arithmetic)

text \<open>
  C1 (as the code has it). On the page of scenario A, whose usage element reads
  \<open>1,234 of 10,000\<close> beside the Operations label and which has 15 rows, 2 marked error
  and 3 marked paused, one pass gives usage count 1234, limit 10000, usage percent 12,
  item total 15, 2 in error, 3 inactive and error rate 13. The health score is 64:
  100 minus 0 for the usage, minus \<open>min(13 * 2, 40) = 26\<close> for the errors, minus
  \<open>min((3 / 15 * 100) / 2, 15) = 10\<close> for the inactive share. When the usage text is
  found only through the label, the usage count is the largest number near the label,
  10000, so the usage percent is 100 and the score is 34.
\<close>

theorem scenario_A_metrics_and_score:
  "operationsUsed (extractMakeMetrics scenarioA) = Some (Num 1234) \<and>
   operationsLimit (extractMakeMetrics scenarioA) = Some (Num 10000) \<and>
   operationsUsagePercent (extractMakeMetrics scenarioA) = Some (Num 12) \<and>
   totalScenarios (extractMakeMetrics scenarioA) = Num 15 \<and>
   errorScenarios (extractMakeMetrics scenarioA) = 2 \<and>
   inactiveScenarios (extractMakeMetrics scenarioA) = 3 \<and>
   errorRate (extractMakeMetrics scenarioA) = Some (Num 13) \<and>
   healthScore (extractMakeMetrics scenarioA) = Some (Num 64) \<and>
   operationsUsed (extractMakeMetrics scenarioA_label) = Some (Num 10000) \<and>
   operationsUsagePercent (extractMakeMetrics scenarioA_label) = Some (Num 100) \<and>
   healthScore (extractMakeMetrics scenarioA_label) = Some (Num 34)"
  by (simp add: extractMakeMetrics_fields scenarioA_used scenarioA_limit scenarioA_percent
      scenarioA_total scenarioA_counts scenarioA_rate scenarioA_score scenarioA_label_used
      scenarioA_label_percent scenarioA_label_score)

text \<open>
  C1, as the claim states it, fails: the score of scenario A is not 54 on either page,
  and through the label the usage count is not 1234.
\<close>

theorem scenario_A_score_is_not_54:
  "healthScore (extractMakeMetrics scenarioA) \<noteq> Some (Num 54) \<and>
   healthScore (extractMakeMetrics scenarioA_label) \<noteq> Some (Num 54) \<and>
   operationsUsed (extractMakeMetrics scenarioA_label) \<noteq> Some (Num 1234)"
  by (simp add: scenarioA_score scenarioA_label_score extractMakeMetrics_fields
      scenarioA_label_used)

section \<open>Counting by status\<close>

lemma countStructured_find:
  "countStructured w ts =
     map_option (\<lambda>t. length (queryAllFirst w (statusSelectors t)))
       (find (\<lambda>t. queryAllFirst w (statusSelectors t) \<noteq> []) ts)"
  by (induction ts) (simp_all add: Let_def)

lemma countByText_le: "countByText w ts \<le> length (statusElements w)"
  by (simp add: countByText_def)

lemma mixedStatusPage_query:
  \<open>querySelectorAll mixedStatusPage sel =
     (if sel = ''[data-testid="scenario-row"]'' then Some mixedRows
       else if sel = ''[data-status="error"]'' then Some (rowsWithStatus mixedRows ''error'')
       else if sel = ''[data-status="failed"]'' then Some (rowsWithStatus mixedRows ''failed'')
       else Some [])\<close>
  by (simp add: mixedStatusPage_def)

lemma mixedRows_eval:
  "rowsWithStatus mixedRows ''error'' = [scenarioRow ''error'', scenarioRow ''error'']"
  "rowsWithStatus mixedRows ''failed'' = [scenarioRow ''failed'']"
  by (simp_all add: mixedRows_def rowsWithStatus_def scenarioRow_def getAttribute_def)

lemma length_filter_sum:
  "length (filter P xs) = (\<Sum>x\<leftarrow>xs. if P x then 1 else 0)"
  by (induction xs) simp_all

lemma twoSynonymPage_query:
  \<open>querySelectorAll twoSynonymPage sel =
     (if sel = ''[class*="status"]''
       then Some [Element ''span'' [(''class'', ''status'')] ''Failed with error'' [bodyEl],
                  Element ''span'' [(''class'', ''status'')] ''Running'' [bodyEl]]
       else Some [])\<close>
  by (simp add: twoSynonymPage_def)

lemma twoSynonymPage_count: "countScenariosByStatus twoSynonymPage ''error'' = 1"
  by (simp add: countScenariosByStatus_def statusTerms_def statusMap_def statusSelectors_def
      twoSynonymPage_query countByText_def statusElements_def statusText_def getAttribute_def
      toLowerCase_def lowerChar_def trim_def isSpace_def)

text \<open>
  C6 (as the code has it). \<open>countScenariosByStatus\<close> returns one count and never adds
  two. It is the size of the first non-empty structured match, the synonyms being tried
  in order and each through its three selectors in order: a structured match of one
  synonym hides the matches of the later synonyms, so this count is not a total over the
  whole category. Failing that, it is the number of status elements whose text or label
  contains a synonym, where each element adds 1 when it contains at least one synonym,
  however many, and 0 otherwise. Failing that, it is the toggle count of the two binary
  states. On the page with two status elements, one reading \<open>Failed with error\<close>, the
  error count is 1.
\<close>

theorem count_is_first_nonempty_match:
  \<open>countScenariosByStatus w status =
     (case find (\<lambda>t. queryAllFirst w (statusSelectors t) \<noteq> []) (statusTerms status) of
        Some t \<Rightarrow> length (queryAllFirst w (statusSelectors t))
      | None \<Rightarrow>
          (let textCount =
             (\<Sum>el\<leftarrow>queryAllFirst w
                   [''[data-testid*="status"]'',
                    ''[class*="status"]'',
                    ''[class*="Status"]'',
                    ''[role="status"]'',
                    ''.imt-toggle'',
                    ''[class*="toggle"]''].
                if (\<exists>t \<in> set (statusTerms status).
                      includes_str
                        (trim (toLowerCase (textContent el)) @ '' '' @
                         toLowerCase (case getAttribute el ''aria-label'' of
                                        Some l \<Rightarrow> l | None \<Rightarrow> []))
                        t)
                then 1 else 0)
           in if 0 < textCount then textCount
              else if status = ''active'' then
                length (queryAllFirst w
                  [''[role="switch"][aria-checked="true"]'',
                   ''input[type="checkbox"]:checked''])
              else if status = ''inactive'' then
                length (queryAllFirst w
                  [''[role="switch"][aria-checked="false"]'',
                   ''input[type="checkbox"]:not(:checked)''])
              else 0)) \<and>
   countScenariosByStatus twoSynonymPage ''error'' = 1\<close>
proof -
  have tc: \<open>countByText w (statusTerms status) =
     (\<Sum>el\<leftarrow>queryAllFirst w
           [''[data-testid*="status"]'',
            ''[class*="status"]'',
            ''[class*="Status"]'',
            ''[role="status"]'',
            ''.imt-toggle'',
            ''[class*="toggle"]''].
        if (\<exists>t \<in> set (statusTerms status).
              includes_str
                (trim (toLowerCase (textContent el)) @ '' '' @
                 toLowerCase (case getAttribute el ''aria-label'' of
                                Some l \<Rightarrow> l | None \<Rightarrow> []))
                t)
        then 1 else 0)\<close>
    unfolding countByText_def statusElements_def statusText_def length_filter_sum list_ex_iff
    by (rule refl)
  have main: "countScenariosByStatus w status =
     (case find (\<lambda>t. queryAllFirst w (statusSelectors t) \<noteq> []) (statusTerms status) of
        Some t \<Rightarrow> length (queryAllFirst w (statusSelectors t))
      | None \<Rightarrow>
          (let textCount = countByText w (statusTerms status)
           in if 0 < textCount then textCount else countToggles w status))"
    by (simp add: countScenariosByStatus_def countStructured_find Let_def split: option.split)
  show ?thesis
    unfolding tc [symmetric]
    by (rule conjI) (rule main [unfolded countToggles_def], rule twoSynonymPage_count)
qed

text \<open>
  C6, as the claim states it, fails: with two rows marked \<open>error\<close> and one marked
  \<open>failed\<close>, the error category has three rows and three structured matches, and the
  count is 2.
\<close>

theorem later_synonym_is_not_counted:
  "countScenariosByStatus mixedStatusPage ''error'' = 2 \<and>
   length (filter (\<lambda>el. list_ex (\<lambda>t. getAttribute el ''data-status'' = Some t)
                            (statusTerms ''error'')) mixedRows) = 3 \<and>
   length (queryAllFirst mixedStatusPage (statusSelectors ''error'')) +
   length (queryAllFirst mixedStatusPage (statusSelectors ''failed'')) = 3"
proof -
  have a: "countScenariosByStatus mixedStatusPage ''error'' = 2"
    by (simp add: countScenariosByStatus_def statusTerms_def statusMap_def statusSelectors_def
        mixedStatusPage_query mixedRows_eval)
  have b: "length (filter (\<lambda>el. list_ex (\<lambda>t. getAttribute el ''data-status'' = Some t)
                            (statusTerms ''error'')) mixedRows) = 3"
    by (simp add: statusTerms_def statusMap_def mixedRows_def scenarioRow_def getAttribute_def)
  have c: "length (queryAllFirst mixedStatusPage (statusSelectors ''error'')) +
           length (queryAllFirst mixedStatusPage (statusSelectors ''failed'')) = 3"
    by (simp add: statusSelectors_def mixedStatusPage_query mixedRows_eval)
  from a b c show ?thesis by simp
qed

section \<open>A run that never finds data\<close>

lemma backoff_Suc: "backoff (Suc n) = min (backoff n * (3 / 2)) 3000"
  by (simp add: backoff_def min_def)

lemma backoff_le: "backoff n \<le> 3000"
  by (simp add: backoff_def)

lemma backoff_mono_Suc: "backoff n \<le> backoff (Suc n)"
proof -
  have "0 \<le> backoff n"
    by (simp add: backoff_def)
  then have "backoff n \<le> backoff n * (3 / 2)"
    by simp
  with backoff_le [of n] show ?thesis
    by (simp add: backoff_Suc)
qed

lemma backoff_mono: "m \<le> n \<Longrightarrow> backoff m \<le> backoff n"
  by (rule lift_Suc_mono_le [of backoff]) (rule backoff_mono_Suc)

lemma backoff_values:
  "backoff 0 = 500" "backoff 1 = 750" "backoff 2 = 1125" "backoff 3 = 3375 / 2"
  "backoff 4 = 10125 / 4" "backoff 5 = 3000"
  by (simp_all add: backoff_def power_numeral_reduce)

lemma backoff_capped: "5 \<le> n \<Longrightarrow> backoff n = 3000"
  using backoff_mono [of 5 n] backoff_le [of n] by (simp add: backoff_values)

lemma sorted_backoff: "sorted (map backoff [0..<n])"
  by (simp add: sorted_map sorted_wrt_iff_nth_less backoff_mono)


lemma tryExtract_nodata:
  assumes "\<not> hasData (extractMakeMetrics w)"
  shows "tryExtract w s =
     (if maxAttempts \<le> Suc (attempts s)
      then (True, s\<lparr>attempts := Suc (attempts s),
                       sent := sent s @ [METRICS_EXTRACTION_FAILED (location_href w)]\<rparr>)
      else (False, s\<lparr>attempts := Suc (attempts s)\<rparr>))"
  using assms by (simp add: tryExtract_def Let_def)

lemma init_nodata:
  assumes "\<not> hasData (extractMakeMetrics w)"
  shows "init st w = pollingState st (location_href w) 0"
  by (simp add: init_def tryExtract_nodata [OF assms] maxAttempts_def setTimeout_def
      pollingState_def backoff_def)

lemma step_polling:
  assumes "\<not> hasData (extractMakeMetrics w)" and "k < 28"
  shows "step (pollingState st u k) (TimerFires 0 w) = pollingState st u (Suc k)"
  using assms(2)
  by (simp add: pollingState_def removeAt_def poll_def tryExtract_nodata [OF assms(1)]
      maxAttempts_def setTimeout_def backoff_Suc del: upt_Suc)
     (simp add: backoff_Suc)

lemma step_exhaust:
  assumes "\<not> hasData (extractMakeMetrics w)"
  shows "step (pollingState st u 28) (TimerFires 0 w) = exhaustedState st u (location_href w)"
  by (simp add: pollingState_def exhaustedState_def removeAt_def poll_def
      tryExtract_nodata [OF assms] maxAttempts_def del: upt_Suc)

lemma run_idle: "timers s = [] \<Longrightarrow> run s (timerRuns ws) = s"
  by (induction ws) (simp_all add: run_def timerRuns_def)

lemma run_polling:
  assumes "\<forall>w \<in> set ws. \<not> hasData (extractMakeMetrics w)" and "k + length ws \<le> 28"
  shows "run (pollingState st u k) (timerRuns ws) = pollingState st u (k + length ws)"
  using assms
proof (induction ws arbitrary: k)
  case Nil
  then show ?case by (simp add: run_def timerRuns_def)
next
  case (Cons w ws)
  then have "step (pollingState st u k) (TimerFires 0 w) = pollingState st u (Suc k)"
    by (intro step_polling) auto
  moreover have "run (pollingState st u (Suc k)) (timerRuns ws)
                   = pollingState st u (Suc k + length ws)"
    using Cons.prems by (intro Cons.IH) auto
  ultimately show ?case
    by (simp add: run_def timerRuns_def)
qed

lemma run_append: "run s (timerRuns (xs @ ys)) = run (run s (timerRuns xs)) (timerRuns ys)"
  by (simp add: run_def timerRuns_def)

lemma run_exhausted:
  assumes nd: "\<forall>w \<in> set (w0 # ws). \<not> hasData (extractMakeMetrics w)" and len: "29 \<le> length ws"
  shows "run (init st w0) (timerRuns ws)
           = exhaustedState st (location_href w0) (location_href (ws ! 28))"
proof -
  have "28 < length ws"
    using len by simp
  then have "drop 28 ws = ws ! 28 # drop (Suc 28) ws"
    by (rule Cons_nth_drop_Suc [symmetric])
  then have "take 28 ws @ [ws ! 28] @ drop 29 ws = take 28 ws @ drop 28 ws"
    by simp
  then have split: "ws = take 28 ws @ [ws ! 28] @ drop 29 ws"
    by simp
  have in28: "ws ! 28 \<in> set ws"
    using len by simp
  have a: "run (init st w0) (timerRuns (take 28 ws)) = pollingState st (location_href w0) 28"
  proof -
    have "\<forall>w \<in> set (take 28 ws). \<not> hasData (extractMakeMetrics w)"
      using nd by (auto dest: in_set_takeD)
    moreover have "0 + length (take 28 ws) \<le> 28"
      by simp
    ultimately have "run (pollingState st (location_href w0) 0) (timerRuns (take 28 ws))
        = pollingState st (location_href w0) (0 + length (take 28 ws))"
      by (rule run_polling)
    with nd len show ?thesis
      by (simp add: init_nodata min_def)
  qed
  have b: "run (pollingState st (location_href w0) 28) (timerRuns [ws ! 28])
             = exhaustedState st (location_href w0) (location_href (ws ! 28))"
    using nd in28 by (simp add: run_def timerRuns_def step_exhaust del: step.simps)
  have c: "run (exhaustedState st u v) (timerRuns zs) = exhaustedState st u v" for u v zs
    by (rule run_idle) (simp add: exhaustedState_def)
  have "run (init st w0) (timerRuns ws)
          = run (init st w0) (timerRuns (take 28 ws @ [ws ! 28] @ drop 29 ws))"
    using split by simp
  also have "\<dots> = exhaustedState st (location_href w0) (location_href (ws ! 28))"
    by (simp only: run_append a b c)
  finally show ?thesis .
qed


lemma nodata_noLocator: "noLocator w \<Longrightarrow> \<not> hasData (extractMakeMetrics w)"
  by (simp add: hasData_def noLocator_metrics positive_def)

text \<open>
  C5. In a run where no page has data and no navigation occurs, the attempt of \<open>init\<close> and
  the attempts of the first 28 timers each leave one timer pending, and the attempt of
  the 29th timer is the 30th and last: the counter is 30 and no timer is pending. The
  delays handed to \<open>setTimeout\<close> are \<open>backoff 0, ..., backoff 28\<close>: 500, 750, 1125, each
  the previous one times 1.5 capped at 3000, a non-decreasing sequence that stays at 3000
  from the sixth delay on.
\<close>

theorem exhausted_after_30_attempts:
  assumes "\<forall>w \<in> set (w0 # ws). \<not> hasData (extractMakeMetrics w)" and "29 \<le> length ws"
  shows "attempts (run (init st w0) (timerRuns ws)) = 30 \<and>
         timers (run (init st w0) (timerRuns ws)) = [] \<and>
         (\<forall>n \<le> 28. attempts (run (init st w0) (timerRuns (take n ws))) = Suc n \<and>
                   timers (run (init st w0) (timerRuns (take n ws))) = [backoff n]) \<and>
         scheduled (run (init st w0) (timerRuns ws)) = map backoff [0..<29] \<and>
         sorted (scheduled (run (init st w0) (timerRuns ws))) \<and>
         backoff 0 = 500 \<and> backoff 1 = 750 \<and> backoff 2 = 1125 \<and>
         (\<forall>n. backoff (Suc n) = min (backoff n * (3 / 2)) 3000) \<and>
         (\<forall>n. backoff n \<le> 3000) \<and> (\<forall>n \<ge> 5. backoff n = 3000)"
proof -
  have fin: "run (init st w0) (timerRuns ws)
               = exhaustedState st (location_href w0) (location_href (ws ! 28))"
    using assms by (rule run_exhausted)
  have mid: "run (init st w0) (timerRuns (take n ws)) = pollingState st (location_href w0) n"
    if "n \<le> 28" for n
  proof -
    have "\<forall>w \<in> set (take n ws). \<not> hasData (extractMakeMetrics w)"
      using assms(1) by (auto dest: in_set_takeD)
    moreover have "0 + length (take n ws) \<le> 28"
      using that by simp
    ultimately have "run (pollingState st (location_href w0) 0) (timerRuns (take n ws))
        = pollingState st (location_href w0) (0 + length (take n ws))"
      by (rule run_polling)
    with assms that show ?thesis
      by (simp add: init_nodata min_def)
  qed
  show ?thesis
    by (simp add: fin mid exhaustedState_def pollingState_def sorted_backoff backoff_values
        backoff_le backoff_capped backoff_Suc del: upt_Suc)
qed

text \<open>C5, witness: the page on which nothing matches, polled 29 times.\<close>

theorem exhausted_after_30_attempts_witness:
  "attempts (run (init None emptyPage) (timerRuns (replicate 29 emptyPage))) = 30 \<and>
   timers (run (init None emptyPage) (timerRuns (replicate 29 emptyPage))) = [] \<and>
   scheduled (run (init None emptyPage) (timerRuns (replicate 29 emptyPage)))
     = map backoff [0..<29]"
proof -
  have "\<forall>w \<in> set (emptyPage # replicate 29 emptyPage). \<not> hasData (extractMakeMetrics w)"
    by (simp add: nodata_noLocator noLocator_emptyPage)
  moreover have "29 \<le> length (replicate 29 emptyPage)"
    by simp
  ultimately show ?thesis
    using exhausted_after_30_attempts [of emptyPage "replicate 29 emptyPage" None] by blast
qed

section \<open>The outcome of an exhausted run\<close>

lemma popup_without_metrics:
  assumes make: "urlIncludes (tabUrl env) ''make.com''"
    and nz: "\<not> urlIncludes (tabUrl env) ''zapier.com''"
    and nzl: "\<not> urlIncludes (tabUrlLater env) ''zapier.com''"
    and st: "stored env ''makeMetrics'' = entry"
    and stl: "storedLater env ''makeMetrics'' = entry"
    and rep: "replyWithoutMetrics (analyzeReply env)"
  shows "fst (popupLoaded env) = NoPlatform \<or>
         (\<exists>m. entry = Some m \<and> fst (popupLoaded env) = displayMetrics m)"
    and "entry = None \<Longrightarrow> fst (popupLoaded env) = NoPlatform"
proof -
  have req: "fst (requestMetrics env) = NoPlatform \<or>
             (\<exists>m. entry = Some m \<and> fst (requestMetrics env) = displayMetrics m)"
    using nzl stl rep
    by (auto simp: requestMetrics_def replyWithoutMetrics_def split: sum.split option.split)
  show "fst (popupLoaded env) = NoPlatform \<or>
         (\<exists>m. entry = Some m \<and> fst (popupLoaded env) = displayMetrics m)"
    using make nz st req
    by (auto simp: popupLoaded_def Let_def split: option.split)
  then show "entry = None \<Longrightarrow> fst (popupLoaded env) = NoPlatform"
    by auto
qed

lemma displayMetrics_not_NoPlatform: "displayMetrics m \<noteq> NoPlatform"
  by (simp add: displayMetrics_def Let_def)

lemma makePopup_reply: "replyWithoutMetrics (analyzeReply (makePopup e))"
  by (simp add: makePopup_def replyWithoutMetrics_def analyzeCurrentTab_def)

text \<open>
  C9. When every attempt of a run fails, the controller reports the outcome with one
  \<open>METRICS_EXTRACTION_FAILED\<close> message, a message kind of its own; it writes no metric
  set to storage and injects no badge. A popup opened on the tab afterwards, whose
  \<open>ANALYZE_TAB\<close> request brings no metric set, shows the no-data view, or else the
  snapshot that an earlier successful run had stored, unchanged. The no-data view is
  different from every health view, so the outcome is never shown as a score of 0.
\<close>

theorem exhaustion_is_no_data:
  assumes "\<forall>w \<in> set (w0 # ws). \<not> hasData (extractMakeMetrics w)" and "29 \<le> length ws"
    and "urlIncludes (tabUrl env) ''make.com''"
    and "\<not> urlIncludes (tabUrl env) ''zapier.com''"
    and "\<not> urlIncludes (tabUrlLater env) ''zapier.com''"
    and "stored env ''makeMetrics'' = storage (run (init st w0) (timerRuns ws))"
    and "storedLater env ''makeMetrics'' = storage (run (init st w0) (timerRuns ws))"
    and "replyWithoutMetrics (analyzeReply env)"
  shows "sent (run (init st w0) (timerRuns ws))
           = [METRICS_EXTRACTION_FAILED (location_href (ws ! 28))] \<and>
         storage (run (init st w0) (timerRuns ws)) = st \<and>
         badge (run (init st w0) (timerRuns ws)) = None \<and>
         (fst (popupLoaded env) = NoPlatform \<or>
          (\<exists>m. st = Some m \<and> fst (popupLoaded env) = displayMetrics m)) \<and>
         (st = None \<longrightarrow> fst (popupLoaded env) = NoPlatform) \<and>
         (\<forall>m. displayMetrics m \<noteq> NoPlatform) \<and>
         (\<forall>m u. METRICS_EXTRACTED m \<noteq> METRICS_EXTRACTION_FAILED u)"
proof -
  have fin: "run (init st w0) (timerRuns ws)
               = exhaustedState st (location_href w0) (location_href (ws ! 28))"
    using assms(1,2) by (rule run_exhausted)
  have s: "storage (run (init st w0) (timerRuns ws)) = st"
    by (simp add: fin exhaustedState_def)
  note p = popup_without_metrics [OF assms(3) assms(4) assms(5) assms(6) [unfolded s]
      assms(7) [unfolded s] assms(8)]
  show ?thesis
    using p by (simp add: fin exhaustedState_def displayMetrics_not_NoPlatform)
qed

text \<open>C9, witness: the empty page polled to exhaustion, then the popup on that tab.\<close>

theorem exhaustion_is_no_data_witness:
  "sent (run (init None emptyPage) (timerRuns (replicate 29 emptyPage)))
     = [METRICS_EXTRACTION_FAILED (location_href emptyPage)] \<and>
   fst (popupLoaded (makePopup None)) = NoPlatform"
proof -
  have fin: "run (init None emptyPage) (timerRuns (replicate 29 emptyPage))
      = exhaustedState None (location_href emptyPage) (location_href emptyPage)"
    using run_exhausted [of emptyPage "replicate 29 emptyPage" None]
    by (simp add: nodata_noLocator noLocator_emptyPage)
  have a: "\<forall>w \<in> set (emptyPage # replicate 29 emptyPage). \<not> hasData (extractMakeMetrics w)"
    by (simp add: nodata_noLocator noLocator_emptyPage)
  have b: "29 \<le> length (replicate 29 emptyPage)"
    by simp
  have c: "stored (makePopup None) ''makeMetrics''
             = storage (run (init None emptyPage) (timerRuns (replicate 29 emptyPage)))"
    "storedLater (makePopup None) ''makeMetrics''
             = storage (run (init None emptyPage) (timerRuns (replicate 29 emptyPage)))"
    by (simp_all add: fin exhaustedState_def makePopup_def)
  show ?thesis
    using exhaustion_is_no_data [OF a b makePopup_url(1) makePopup_url(2) makePopup_url(3)
        c(1) c(2) makePopup_reply]
    by simp
qed

section \<open>Pending timers and navigation\<close>

lemma tryExtract_timers: "timers (snd (tryExtract w s)) = timers s"
  by (simp add: tryExtract_def Let_def)

lemma poll_timers: "length (timers (poll w s)) \<le> Suc (length (timers s))"
proof (cases "tryExtract w s")
  case (Pair stop s1)
  with tryExtract_timers [of w s] have "timers s1 = timers s"
    by simp
  with Pair show ?thesis
    by (cases stop) (simp_all add: poll_def setTimeout_def)
qed

lemma init_timers: "length (timers (init st w)) \<le> 1"
proof (cases "tryExtract w \<lparr> attempts = 0, pollDelay = 500, lastUrl = [], observing = False,
                 timers = [], scheduled = [], storage = st, badge = None, sent = [] \<rparr>")
  case (Pair stop s1)
  with tryExtract_timers [of w "\<lparr> attempts = 0, pollDelay = 500, lastUrl = [],
      observing = False, timers = [], scheduled = [], storage = st, badge = None, sent = [] \<rparr>"]
  have "timers s1 = []"
    by simp
  with Pair show ?thesis
    by (cases stop) (simp_all add: init_def setTimeout_def)
qed

lemma step_timer_keeps_one:
  assumes "length (timers s) \<le> 1"
  shows "length (timers (step s (TimerFires i w))) \<le> 1"
proof (cases "i < length (timers s)")
  case True
  with assms have "removeAt i (timers s) = []"
    by (cases "timers s") (simp_all add: removeAt_def)
  with True poll_timers [of w "s\<lparr>timers := removeAt i (timers s)\<rparr>"] show ?thesis
    by simp
next
  case False
  with assms show ?thesis by simp
qed

lemma run_timers_keep_one:
  "length (timers s) \<le> 1 \<Longrightarrow> length (timers (run s (timerEvents fs))) \<le> 1"
proof (induction fs arbitrary: s)
  case Nil
  then show ?case by (simp add: run_def timerEvents_def)
next
  case (Cons f fs)
  obtain i w where f: "f = (i, w)" by (cases f)
  have "length (timers (step s (TimerFires i w))) \<le> 1"
    using Cons.prems by (rule step_timer_keeps_one)
  then have "length (timers (run (step s (TimerFires i w)) (timerEvents fs))) \<le> 1"
    by (rule Cons.IH)
  then show ?case
    by (simp add: run_def timerEvents_def f)
qed

lemma init_emptyPage: "init None emptyPage = pollingState None (location_href emptyPage) 0"
  by (simp add: init_nodata nodata_noLocator noLocator_emptyPage)

lemma navigatedPage_facts:
  "location_href navigatedPage \<noteq> location_href emptyPage"
  "noLocator navigatedPage"
  by (simp_all add: navigatedPage_def emptyPage_def noLocator_def)

text \<open>
  C3 (as the code has it). In a run without navigation at most one scheduled attempt is
  pending at every moment. A navigation seen by the observer sets the attempt counter to
  0 and schedules one new attempt 1000 ms later; it cancels nothing, so the attempts that
  were pending before it stay pending beside the new one.
\<close>

theorem reset_keeps_pending_timers:
  "length (timers (run (init st w0) (timerEvents fs))) \<le> 1 \<and>
   (observing s \<and> location_href w \<noteq> lastUrl s \<longrightarrow>
      timers (step s (Mutation w)) = timers s @ [1000] \<and>
      attempts (step s (Mutation w)) = 0 \<and>
      lastUrl (step s (Mutation w)) = location_href w)"
  using run_timers_keep_one [OF init_timers, of st w0 fs]
  by (simp add: urlObserver_def setTimeout_def)

text \<open>C3, witness: a navigation while the first timer of the empty page is pending.\<close>

theorem reset_keeps_pending_timers_witness:
  "timers (step (init None emptyPage) (Mutation navigatedPage))
     = timers (init None emptyPage) @ [1000] \<and>
   attempts (step (init None emptyPage) (Mutation navigatedPage)) = 0"
proof -
  have "observing (init None emptyPage) \<and>
        location_href navigatedPage \<noteq> lastUrl (init None emptyPage)"
    by (simp add: init_emptyPage pollingState_def navigatedPage_facts)
  with reset_keeps_pending_timers [of None emptyPage "[]" "init None emptyPage" navigatedPage]
  show ?thesis by blast
qed

text \<open>
  C3, as the claim states it, fails: after the navigation two attempts are pending, the
  one scheduled before it (500 ms) and the new one (1000 ms); the old timer then fires,
  runs an attempt (the counter goes from 0 to 1) and schedules a further timer.
\<close>

theorem old_timer_runs_after_reset:
  "timers (run (init None emptyPage) [Mutation navigatedPage]) = [500, 1000] \<and>
   attempts (run (init None emptyPage) [Mutation navigatedPage]) = 0 \<and>
   attempts (run (init None emptyPage) [Mutation navigatedPage, TimerFires 0 navigatedPage]) = 1 \<and>
   timers (run (init None emptyPage) [Mutation navigatedPage, TimerFires 0 navigatedPage])
     = [1000, 750]"
proof -
  have nd: "\<not> hasData (extractMakeMetrics navigatedPage)"
    by (simp add: nodata_noLocator navigatedPage_facts)
  show ?thesis
    by (simp add: run_def init_emptyPage pollingState_def urlObserver_def setTimeout_def
        navigatedPage_facts backoff_values removeAt_def poll_def tryExtract_nodata [OF nd]
        maxAttempts_def)
qed

section \<open>The coordinator and a failed extraction\<close>

text \<open>
  C8 (as the code has it). A \<open>METRICS_EXTRACTION_FAILED\<close> message has no case in the
  coordinator's listener: the snapshot map and the badge of every tab stay as they were,
  and no response is sent.
\<close>

theorem failed_message_changes_nothing:
  "onMessage (METRICS_EXTRACTION_FAILED u) tab c = (c, NoReply)"
  by simp

text \<open>
  C8, as the claim states it, fails: tab 7 reports the metric set of scenario A and its
  badge shows 64; when the failure message of the same tab arrives, the badge still
  shows 64.
\<close>

theorem failed_message_keeps_badge:
  "badgeText
     (fst (onMessage (METRICS_EXTRACTION_FAILED (location_href scenarioA)) (Some 7)
        (fst (onMessage (METRICS_EXTRACTED (extractMakeMetrics scenarioA)) (Some 7)
           freshCoordinator))))
     (Some 7) = Some (Num 64)"
  by (simp add: handleMetricsExtracted_def extractMakeMetrics_fields scenarioA_score orZero_def
      Let_def)

end
